theory Spec2Isabelle
  imports Main "HOL-Library.Sublist"
begin

section \<open>Python text\<close>

text \<open>
  A Python \<open>str\<close> is modelled as a \<open>string\<close> whose characters stand for the code points
  below 256. \<open>isspace\<close> is \<open>str.isspace\<close> on that range, \<open>strip\<close> is \<open>str.strip()\<close> with
  no argument.
\<close>

definition nl :: char where
  "nl = CHR 0x0A"

definition dq :: char where
  "dq = CHR 0x22"

definition bs :: char where
  "bs = CHR 0x5C"

definition isspace :: "char \<Rightarrow> bool" where
  "isspace c = ((of_char c :: nat) \<in> {9, 10, 11, 12, 13, 28, 29, 30, 31, 32, 133, 160})"

definition strip :: "string \<Rightarrow> string" where
  "strip s = rev (dropWhile isspace (rev (dropWhile isspace s)))"

text \<open>
  \<open>json.dumps(s)[1:-1]\<close> for a \<open>str\<close>: the JSON string literal without its two quotes.
  With the default \<open>ensure_ascii\<close>, the encoder replaces the backslash, the double quote
  and every character outside \<open>' '..'~'\<close>: the short escapes for backspace, form feed,
  newline, carriage return and tab, and \<open>\uXXXX\<close> with lower-case hexadecimal digits for
  the rest.
\<close>

definition hexdigit :: "nat \<Rightarrow> char" where
  "hexdigit n = ''0123456789abcdef'' ! (n mod 16)"

definition json_escape_char :: "char \<Rightarrow> string" where
  "json_escape_char c =
     (let n = (of_char c :: nat) in
      if c = bs then [bs, bs]
      else if c = dq then [bs, dq]
      else if n = 8 then [bs, CHR ''b'']
      else if n = 12 then [bs, CHR ''f'']
      else if n = 10 then [bs, CHR ''n'']
      else if n = 13 then [bs, CHR ''r'']
      else if n = 9 then [bs, CHR ''t'']
      else if 32 \<le> n \<and> n \<le> 126 then [c]
      else [bs, CHR ''u'', CHR ''0'', CHR ''0'', hexdigit (n div 16), hexdigit n])"

definition json_escape :: "string \<Rightarrow> string" where
  "json_escape s = concat (map json_escape_char s)"

section \<open>Exceptions and the outside\<close>

text \<open>
  The exceptions that can travel through this module: the \<open>AssertionError\<close> of a failed
  \<open>assert\<close> (assertions are executed, as they are unless the interpreter runs with \<open>-O\<close>),
  the \<open>ValueError\<close> and \<open>TypeError\<close> of a failed \<open>%\<close> formatting, and the
  \<open>RequestException\<close>s of \<open>requests\<close> (a connection failure, the expiry of the timeout, or
  another of them).
\<close>

datatype request_exception = ConnectionError | Timeout | OtherRequestException

datatype exception =
    AssertionError string
  | ValueError string
  | TypeError string
  | RequestException request_exception

text \<open>
  \<open>requests.post\<close> either returns a response (status code and content) or raises one of
  its \<open>RequestException\<close>s.
\<close>

datatype post_result = Response int string | Raises request_exception

text \<open>
  What the outside supplies to one logging call: the outcome of the HTTP request; the
  text \<open>handleError\<close> prints; the rendering of the attributes every \<open>LogRecord\<close> is
  created with (logger name, process id, time, call site, level name); the values that the
  filters of \<open>coloredlogs\<close> put on a record (program name, host name, user name); and the
  value of \<open>msg % args\<close> for a message and its arguments, or the exception it raises.
\<close>

record env =
  post :: post_result
  diag :: string
  render :: "string \<Rightarrow> string"
  filter_value :: "string \<Rightarrow> string"
  percent :: "string \<Rightarrow> string list \<Rightarrow> exception + string"

section \<open>Log records and the formatter\<close>

text \<open>
  A format string such as \<open>'%(name)s %(message)s'\<close> is kept parsed: literal text,
  \<open>%(message)s\<close>, and any other \<open>%(key)...\<close> placeholder of an attribute that is not one of
  the message fields. \<open>attrs\<close> is the part of \<open>record.__dict__\<close> that such placeholders
  read: the rendering of each attribute the record has, \<open>None\<close> for a name it does not
  have. A record is created with the attributes of \<open>LogRecord_attrs\<close> (\<open>asctime\<close> among
  them, which the formatter sets before it is read) and with no other: \<open>extra\<close> is not
  part of the model.

  \<open>args\<close> are the arguments of the logging call, \<open>exc_info\<close> the attached error as the
  list of strings that \<open>traceback.format_exception(*exc_info)\<close> returns for it.
\<close>

datatype part = Lit string | Attr string | Message

type_synonym template = "part list"

record log_record =
  levelno :: int
  msg :: string
  args :: "string list"
  exc_info :: "string list option"
  exc_text :: "string option"
  attrs :: "string \<Rightarrow> string option"

definition LogRecord_attrs :: "string list" where
  "LogRecord_attrs =
     [''name'', ''levelname'', ''levelno'', ''pathname'', ''filename'', ''module'', ''lineno'',
      ''funcName'', ''created'', ''msecs'', ''relativeCreated'', ''thread'', ''threadName'',
      ''processName'', ''process'', ''asctime'']"

text \<open>\<open>LogRecord.getMessage\<close>: \<open>str(self.msg)\<close>, and \<open>msg % self.args\<close> when there are arguments.\<close>

definition getMessage :: "env \<Rightarrow> log_record \<Rightarrow> exception + string" where
  "getMessage e r = (if args r \<noteq> [] then percent e (msg r) (args r) else Inr (msg r))"

text \<open>
  \<open>Formatter.formatMessage\<close>, that is \<open>fmt % record.__dict__\<close>: the first placeholder, from
  the left, whose key the record does not have raises
  \<open>ValueError('Formatting field not found in record: ...')\<close>.
\<close>

fun formatMessage :: "template \<Rightarrow> (string \<Rightarrow> string option) \<Rightarrow> string \<Rightarrow> exception + string" where
  "formatMessage [] at m = Inr []"
| "formatMessage (Lit s # ps) at m =
     (case formatMessage ps at m of Inl x \<Rightarrow> Inl x | Inr t \<Rightarrow> Inr (s @ t))"
| "formatMessage (Attr k # ps) at m =
     (case at k of
        None \<Rightarrow>
          Inl (ValueError (''Formatting field not found in record: '' @ [CHR 0x27] @ k @ [CHR 0x27]))
      | Some v \<Rightarrow> (case formatMessage ps at m of Inl x \<Rightarrow> Inl x | Inr t \<Rightarrow> Inr (v @ t)))"
| "formatMessage (Message # ps) at m =
     (case formatMessage ps at m of Inl x \<Rightarrow> Inl x | Inr t \<Rightarrow> Inr (m @ t))"

text \<open>
  \<open>logging.Formatter.formatException\<close>: the printed traceback without one trailing newline.
\<close>

definition formatException :: "string list \<Rightarrow> string" where
  "formatException ei =
     (let s = concat ei in if s \<noteq> [] \<and> last s = nl then butlast s else s)"

text \<open>Python truthiness of \<open>record.exc_text\<close>: \<open>None\<close> and the empty string are false.\<close>

definition truthy :: "string option \<Rightarrow> bool" where
  "truthy t = (case t of None \<Rightarrow> False | Some s \<Rightarrow> s \<noteq> [])"

text \<open>
  \<open>logging.Formatter.format\<close>: computes the message, renders the template, caches the
  formatted traceback in \<open>record.exc_text\<close> when the record has \<open>exc_info\<close> and no cached text
  yet, and appends the cached text on a new line. It returns the text and the record as
  it leaves it, or the exception that \<open>getMessage\<close> or \<open>formatMessage\<close> raised (both run
  before the cache is written).
\<close>

definition Formatter_format :: "env \<Rightarrow> template \<Rightarrow> log_record \<Rightarrow> exception + (string \<times> log_record)" where
  "Formatter_format e fmt r =
     (case getMessage e r of
        Inl x \<Rightarrow> Inl x
      | Inr message \<Rightarrow>
          (case formatMessage fmt (attrs r) message of
             Inl x \<Rightarrow> Inl x
           | Inr s \<Rightarrow>
               (let r1 = (case exc_info r of
                            Some ei \<Rightarrow>
                              if \<not> truthy (exc_text r)
                              then r\<lparr>exc_text := Some (formatException ei)\<rparr>
                              else r
                          | None \<Rightarrow> r);
                    s1 = (case exc_text r1 of
                            Some t \<Rightarrow>
                              if t \<noteq> []
                              then (if s = [] \<or> last s \<noteq> nl then s @ [nl] else s) @ t
                              else s
                          | None \<Rightarrow> s)
                in Inr (s1, r1))))"

section \<open>Handlers, the logger and the process state\<close>

text \<open>
  Three kinds of handler object are attached to the logger: the stream handler that
  \<open>coloredlogs.install\<close> creates (writing to the original error stream), the
  \<open>TimedRotatingFileHandler\<close> of \<open>use_file\<close> and the \<open>LogglyHandler\<close> of \<open>use_loggly\<close>.
  A handler object has a level, a formatter and filters; objects live in a store and are
  referred to by their address, because \<open>set_level\<close> mutates handlers that the logger's
  handler list also holds.

  The stream handler records whether its formatter is the coloured one: that formatter
  works on a copy of the record, the plain one on the record itself. \<open>h_filters\<close> are the
  names of the attributes that the handler's filters set on a record before it is emitted;
  only the handler of \<open>coloredlogs\<close> has such filters.
\<close>

record file_config =
  fc_filename :: string
  fc_when :: string
  fc_interval :: int
  fc_backupCount :: int
  fc_delay :: bool
  fc_utc :: bool
  fc_atTime :: "string option"

datatype handler_kind =
    StreamHandler bool
  | TimedRotatingFileHandler file_config
  | LogglyHandler string

record handler =
  h_kind :: handler_kind
  h_level :: int
  h_fmt :: template
  h_datefmt :: "string option"
  h_filters :: "string list"

text \<open>
  \<open>sys.stdout\<close> and \<open>sys.stderr\<close> refer either to the stream saved at import time or to
  the wrapper object of this \<open>LogOne\<close>.
\<close>

datatype stream = OriginalStream | WrapperStream

record StdOutWrapper =
  out_log_level :: int

record StdErrWrapper =
  err_log_level :: int
  err_buffer :: string

text \<open>
  What the process does that can be observed: every call of \<open>Logger.log\<close> (level and
  message), every \<open>Handler.handle\<close> of a handler, the text a stream or file handler
  writes, the request the Loggly handler posts (url and body), every \<open>handleError\<close>, and
  text that reaches the original output and error streams directly.
\<close>

datatype event =
    Call int string
  | Handle nat
  | Write nat string
  | Post nat string string
  | HandleError nat
  | StdoutText string
  | StderrText string

record world =
  logger_name :: string
  logger_level :: int
  logger_disabled :: bool
  logger_handlers :: "nat list"
  logger_filters :: "(log_record \<Rightarrow> bool) list"
  parent_level :: int
  manager_disable :: int
  heap :: "nat \<Rightarrow> handler option"
  next_id :: nat
  file_handler :: "nat option"
  loggly_handler :: "nat option"
  coloredlogs_handlers :: "nat list"
  stdout_wrapper :: "StdOutWrapper option"
  stderr_wrapper :: "StdErrWrapper option"
  stdout_stream :: stream
  stderr_stream :: stream
  sys_stdout :: stream
  sys_stderr :: stream
  events :: "event list"

subsection \<open>Error reporting and the error-stream wrapper\<close>

definition StdErrWrapper_write :: "StdErrWrapper \<Rightarrow> string \<Rightarrow> StdErrWrapper" where
  "StdErrWrapper_write b buffer = b\<lparr>err_buffer := err_buffer b @ buffer\<rparr>"

text \<open>\<open>sys.stderr.write(s)\<close>, on whatever \<open>sys.stderr\<close> refers to at that moment.\<close>

definition sys_stderr_write :: "string \<Rightarrow> world \<Rightarrow> world" where
  "sys_stderr_write s w =
     (case sys_stderr w of
        OriginalStream \<Rightarrow> w\<lparr>events := events w @ [StderrText s]\<rparr>
      | WrapperStream \<Rightarrow>
          (case stderr_wrapper w of
             Some b \<Rightarrow> w\<lparr>stderr_wrapper := Some (StdErrWrapper_write b s)\<rparr>
           | None \<Rightarrow> w))"

text \<open>
  \<open>logging.Handler.handleError\<close>: prints a diagnostic on the current \<open>sys.stderr\<close> and
  returns.
\<close>

definition handleError :: "env \<Rightarrow> nat \<Rightarrow> world \<Rightarrow> world" where
  "handleError e hid w = sys_stderr_write (diag e) (w\<lparr>events := events w @ [HandleError hid]\<rparr>)"

subsection \<open>Emitting\<close>

text \<open>
  \<open>logging.StreamHandler.emit\<close>, which the console handler and the file handler share:
  inside one \<open>try\<close>, format the record and write the text and a newline; any exception
  goes to \<open>handleError\<close> and nothing is written. With the coloured formatter the record
  itself is left as it was. The colour codes in the text, rotation and failures of the
  file system are outside the model.
\<close>

definition StreamHandler_emit ::
  "env \<Rightarrow> nat \<Rightarrow> bool \<Rightarrow> template \<Rightarrow> log_record \<Rightarrow> world \<Rightarrow> log_record \<times> world" where
  "StreamHandler_emit e hid coloured fmt r w =
     (case Formatter_format e fmt r of
        Inl x \<Rightarrow> (r, handleError e hid w)
      | Inr (s, r1) \<Rightarrow>
          (if coloured then r else r1, w\<lparr>events := events w @ [Write hid (s @ [nl])]\<rparr>))"

text \<open>The success body \<open>b'{"response" : "ok"}'\<close>.\<close>

definition ok_content :: string where
  "ok_content = ''{'' @ [dq] @ ''response'' @ [dq] @ '' : '' @ [dq] @ ''ok'' @ [dq] @ ''}''"

text \<open>
  The body of the \<open>try\<close> in \<open>LogglyHandler.emit\<close>, given the outcome of the request: the
  exception it raises, if any. The \<open>except\<close> clause names \<open>RequestException\<close> and
  \<open>AssertionError\<close>.
\<close>

definition try_post :: "post_result \<Rightarrow> exception option" where
  "try_post p =
     (case p of
        Raises x \<Rightarrow> Some (RequestException x)
      | Response status_code content \<Rightarrow>
          if status_code \<noteq> 200 then Some (AssertionError ''Log sending failed!'')
          else if content \<noteq> ok_content then Some (AssertionError ''Log sending failed!'')
          else None)"

fun except_clause :: "exception \<Rightarrow> bool" where
  "except_clause (RequestException x) = True"
| "except_clause (AssertionError s) = True"
| "except_clause x = False"

text \<open>
  \<open>LogglyHandler.emit\<close>. The record is the shared object that the logger hands to every
  handler in turn, so the function returns it as the handler leaves it. \<open>loggly_record\<close> is
  the first statement, \<open>if record.exc_info: ...\<close>. \<open>self.format\<close> runs before the \<open>try\<close>: an
  exception of the formatter leaves \<open>emit\<close>, with the record already rewritten and nothing
  posted.
\<close>

definition loggly_record :: "log_record \<Rightarrow> log_record" where
  "loggly_record r =
     (case exc_info r of
        Some ei \<Rightarrow> r\<lparr>msg := json_escape (msg r @ [nl] @ concat ei), exc_info := None\<rparr>
      | None \<Rightarrow> r)"

definition LogglyHandler_emit ::
  "env \<Rightarrow> nat \<Rightarrow> string \<Rightarrow> template \<Rightarrow> log_record \<Rightarrow> world \<Rightarrow>
     exception option \<times> log_record \<times> world" where
  "LogglyHandler_emit e hid loggly_api fmt r w =
     (let r1 = loggly_record r
      in case Formatter_format e fmt r1 of
           Inl x \<Rightarrow> (Some x, r1, w)
         | Inr (formatted_record, r2) \<Rightarrow>
             (let w1 = w\<lparr>events := events w @ [Post hid loggly_api formatted_record]\<rparr>
              in case try_post (post e) of
                   None \<Rightarrow> (None, r2, w1)
                 | Some x \<Rightarrow>
                     if except_clause x then (None, r2, handleError e hid w1)
                     else (Some x, r2, w1)))"

text \<open>
  \<open>logging.Handler.handle\<close>: the handler's filters run first; those of \<open>coloredlogs\<close> set
  their attribute on the record and accept it. Then the handler emits; an exception of
  \<open>emit\<close> is not caught here.
\<close>

definition apply_filters :: "env \<Rightarrow> handler \<Rightarrow> log_record \<Rightarrow> log_record" where
  "apply_filters e h r =
     r\<lparr>attrs := fold (\<lambda>k at. at(k := Some (filter_value e k))) (h_filters h) (attrs r)\<rparr>"

definition Handler_handle ::
  "env \<Rightarrow> nat \<Rightarrow> handler \<Rightarrow> log_record \<Rightarrow> world \<Rightarrow> exception option \<times> log_record \<times> world" where
  "Handler_handle e hid h r w =
     (let r0 = apply_filters e h r;
          w1 = w\<lparr>events := events w @ [Handle hid]\<rparr>
      in case h_kind h of
           StreamHandler coloured \<Rightarrow>
             (case StreamHandler_emit e hid coloured (h_fmt h) r0 w1 of (r1, w2) \<Rightarrow> (None, r1, w2))
         | TimedRotatingFileHandler c \<Rightarrow>
             (case StreamHandler_emit e hid False (h_fmt h) r0 w1 of (r1, w2) \<Rightarrow> (None, r1, w2))
         | LogglyHandler loggly_api \<Rightarrow> LogglyHandler_emit e hid loggly_api (h_fmt h) r0 w1)"

text \<open>
  \<open>logging.Logger.callHandlers\<close> over the logger's own handler list, in list order:
  \<open>if record.levelno >= hdlr.level: hdlr.handle(record)\<close>. An exception of a handler ends
  the loop and leaves the function. Handlers of ancestor loggers are not part of this
  module.
\<close>

fun callHandlers ::
  "env \<Rightarrow> nat list \<Rightarrow> log_record \<Rightarrow> world \<Rightarrow> exception option \<times> log_record \<times> world" where
  "callHandlers e [] r w = (None, r, w)"
| "callHandlers e (hid # hs) r w =
     (case heap w hid of
        None \<Rightarrow> callHandlers e hs r w
      | Some h \<Rightarrow>
          if levelno r \<ge> h_level h
          then (case Handler_handle e hid h r w of
                  (Some x, r1, w1) \<Rightarrow> (Some x, r1, w1)
                | (None, r1, w1) \<Rightarrow> callHandlers e hs r1 w1)
          else callHandlers e hs r w)"

text \<open>
  \<open>logging.Logger.getEffectiveLevel\<close>: the logger's level, or, when that is \<open>NOTSET\<close> (0),
  the effective level of its parent. \<open>isEnabledFor\<close>: a disabled logger, and a level not
  above \<open>logging.disable\<close>'s, pass nothing.
\<close>

definition getEffectiveLevel :: "world \<Rightarrow> int" where
  "getEffectiveLevel w = (if logger_level w \<noteq> 0 then logger_level w else parent_level w)"

definition isEnabledFor :: "world \<Rightarrow> int \<Rightarrow> bool" where
  "isEnabledFor w lvl =
     (if logger_disabled w then False
      else if manager_disable w \<ge> lvl then False
      else lvl \<ge> getEffectiveLevel w)"

definition makeRecord :: "env \<Rightarrow> int \<Rightarrow> string \<Rightarrow> string list \<Rightarrow> string list option \<Rightarrow> log_record" where
  "makeRecord e lvl m a ei =
     \<lparr>levelno = lvl, msg = m, args = a, exc_info = ei, exc_text = None,
      attrs = (\<lambda>k. if k \<in> set LogRecord_attrs then Some (render e k) else None)\<rparr>"

text \<open>
  \<open>logging.Logger.log(level, msg, *args, exc_info=...)\<close>, which \<open>debug\<close>, \<open>info\<close>,
  \<open>warning\<close>, \<open>error\<close>, \<open>exception\<close> and \<open>critical\<close> specialise: when the logger is enabled
  for the level it makes the record, and \<open>Logger.handle\<close> passes it to the handlers unless
  the logger is disabled or one of the logger's filters rejects it. The filters are
  taken as tests that leave the record alone.
\<close>

definition Logger_log ::
  "env \<Rightarrow> int \<Rightarrow> string \<Rightarrow> string list \<Rightarrow> string list option \<Rightarrow> world \<Rightarrow>
     exception option \<times> world" where
  "Logger_log e lvl m a ei w =
     (let w0 = w\<lparr>events := events w @ [Call lvl m]\<rparr>
      in if isEnabledFor w0 lvl
         then (let r = makeRecord e lvl m a ei
               in if \<not> logger_disabled w0 \<and> list_all (\<lambda>f. f r) (logger_filters w0)
                  then (case callHandlers e (logger_handlers w0) r w0 of (x, r1, w1) \<Rightarrow> (x, w1))
                  else (None, w0))
         else (None, w0))"

subsection \<open>The stream wrappers\<close>

text \<open>
  Both \<open>write\<close> of the output wrapper and \<open>flush\<close> of the error wrapper return the
  exception that leaves them, if any, and the state as it is then.
\<close>

definition StdOutWrapper_write ::
  "env \<Rightarrow> StdOutWrapper \<Rightarrow> string \<Rightarrow> world \<Rightarrow> exception option \<times> world" where
  "StdOutWrapper_write e sw buffer w =
     (let buffer = strip buffer
      in if length buffer > 0 then Logger_log e (out_log_level sw) buffer [] None w
         else (None, w))"


text \<open>
  \<open>StdErrWrapper.flush\<close>, on the wrapper object of the state. The buffer is a \<open>StringIO\<close>
  that is only ever written at its end and reset by \<open>truncate(0)\<close>, \<open>seek(0)\<close>, so
  \<open>tell()\<close> is the length of its value. When \<open>log\<close> raises, the two resetting lines are
  not reached. The wrapper is read again after the call of \<open>log\<close>, which can reach the
  same object through \<open>handleError\<close>.
\<close>

definition StdErrWrapper_flush :: "env \<Rightarrow> world \<Rightarrow> exception option \<times> world" where
  "StdErrWrapper_flush e w =
     (case stderr_wrapper w of
        None \<Rightarrow> (None, w)
      | Some b \<Rightarrow>
          if length (err_buffer b) > 0
          then (case Logger_log e (err_log_level b) (err_buffer b) [] None w of
                  (Some x, w1) \<Rightarrow> (Some x, w1)
                | (None, w1) \<Rightarrow>
                    (case stderr_wrapper w1 of
                       Some b1 \<Rightarrow> (None, w1\<lparr>stderr_wrapper := Some (b1\<lparr>err_buffer := []\<rparr>)\<rparr>)
                     | None \<Rightarrow> (None, w1)))
          else (None, w))"

text \<open>Writing to and flushing \<open>sys.stdout\<close> and \<open>sys.stderr\<close>, as \<open>print\<close> and the runtime do.\<close>

definition sys_stdout_write :: "env \<Rightarrow> string \<Rightarrow> world \<Rightarrow> exception option \<times> world" where
  "sys_stdout_write e s w =
     (case sys_stdout w of
        OriginalStream \<Rightarrow> (None, w\<lparr>events := events w @ [StdoutText s]\<rparr>)
      | WrapperStream \<Rightarrow>
          (case stdout_wrapper w of
             Some sw \<Rightarrow> StdOutWrapper_write e sw s w
           | None \<Rightarrow> (None, w)))"

definition sys_stderr_flush :: "env \<Rightarrow> world \<Rightarrow> exception option \<times> world" where
  "sys_stderr_flush e w =
     (case sys_stderr w of
        OriginalStream \<Rightarrow> (None, w)
      | WrapperStream \<Rightarrow> StdErrWrapper_flush e w)"

subsection \<open>\<open>LogOne\<close>\<close>

definition q :: "string \<Rightarrow> string" where
  "q s = [dq] @ s @ [dq]"

definition console_format :: template where
  "console_format =
     [Attr ''asctime'', Lit ''.'', Attr ''msecs'', Lit '' '', Attr ''name'', Lit ''['',
      Attr ''process'', Lit ''] '', Attr ''programname'', Lit ''/'', Attr ''module'', Lit ''/'',
      Attr ''funcName'', Lit ''['', Attr ''lineno'', Lit ''] '', Attr ''levelname'', Lit '' '',
      Message]"

definition file_format :: template where
  "file_format =
     [Attr ''asctime'', Lit '' '', Attr ''name'', Lit ''['',
      Attr ''process'', Lit ''] '', Attr ''programname'', Lit ''/'', Attr ''module'', Lit ''/'',
      Attr ''funcName'', Lit ''['', Attr ''lineno'', Lit ''] '', Attr ''levelname'', Lit '' '',
      Message]"

definition loggly_format :: template where
  "loggly_format =
     [Lit (''{'' @ q ''name'' @ '':'' @ [dq]), Attr ''name'',
      Lit ([dq] @ '','' @ q ''process'' @ '':'' @ [dq]), Attr ''process'',
      Lit ([dq] @ '','' @ q ''levelname'' @ '':'' @ [dq]), Attr ''levelname'',
      Lit ([dq] @ '','' @ q ''time'' @ '':'' @ [dq]), Attr ''asctime'',
      Lit ([dq] @ '','' @ q ''filename'' @ '':'' @ [dq]), Attr ''filename'',
      Lit ([dq] @ '','' @ q ''programname'' @ '':'' @ [dq]), Attr ''programname'',
      Lit ([dq] @ '','' @ q ''module'' @ '':'' @ [dq]), Attr ''module'',
      Lit ([dq] @ '','' @ q ''funcName'' @ '':'' @ [dq]), Attr ''funcName'',
      Lit ([dq] @ '','' @ q ''lineno'' @ '':'' @ [dq]), Attr ''lineno'',
      Lit ([dq] @ '','' @ q ''message'' @ '':'' @ [dq]), Message,
      Lit ([dq] @ ''}'')]"

text \<open>\<open>if not log_format: log_format = default\<close>, for \<open>None\<close> and the empty string alike.\<close>

definition or_default :: "'a list option \<Rightarrow> 'a list \<Rightarrow> 'a list" where
  "or_default x d = (case x of None \<Rightarrow> d | Some v \<Rightarrow> if v = [] then d else v)"

text \<open>
  \<open>LogOne.__init__\<close> on a logger name that \<open>logging.getLogger\<close> has not seen: the logger
  starts with level \<open>NOTSET\<close>, enabled, without handlers and without filters.
  \<open>coloredlogs.install\<close> is a call into a library: it attaches one stream handler on the
  original error stream, with the requested level and format, coloured when \<open>use_colors\<close>
  is set; it gives the handler a filter for each of \<open>hostname\<close>, \<open>programname\<close> and
  \<open>username\<close> that the format uses; and it lowers the logger's level to the requested one
  when the logger's effective level is higher. \<open>parent\<close> is the effective level of the
  logger's parent and \<open>disable\<close> the level of \<open>logging.disable\<close> (0 unless the program
  set it).
\<close>

definition coloredlogs_filters :: "template \<Rightarrow> string list" where
  "coloredlogs_filters fmt =
     filter (\<lambda>k. Attr k \<in> set fmt) [''hostname'', ''programname'', ''username'']"

definition LogOne_init ::
  "string \<Rightarrow> int \<Rightarrow> bool \<Rightarrow> template option \<Rightarrow> string option \<Rightarrow> int \<Rightarrow> int \<Rightarrow> world" where
  "LogOne_init name lvl use_colors log_format date_format parent disable =
     \<lparr>logger_name = name,
      logger_level = (if parent > lvl then lvl else 0),
      logger_disabled = False,
      logger_handlers = [0],
      logger_filters = [],
      parent_level = parent,
      manager_disable = disable,
      heap = (\<lambda>i. None)(0 := Some \<lparr>h_kind = StreamHandler use_colors, h_level = lvl,
                 h_fmt = or_default log_format console_format, h_datefmt = date_format,
                 h_filters = coloredlogs_filters (or_default log_format console_format)\<rparr>),
      next_id = 1,
      file_handler = None,
      loggly_handler = None,
      coloredlogs_handlers = [0],
      stdout_wrapper = None,
      stderr_wrapper = None,
      stdout_stream = OriginalStream,
      stderr_stream = OriginalStream,
      sys_stdout = OriginalStream,
      sys_stderr = OriginalStream,
      events = []\<rparr>"

definition Handler_setLevel :: "int \<Rightarrow> nat \<Rightarrow> (nat \<Rightarrow> handler option) \<Rightarrow> (nat \<Rightarrow> handler option)" where
  "Handler_setLevel lvl hid hp =
     (case hp hid of None \<Rightarrow> hp | Some h \<Rightarrow> hp(hid := Some (h\<lparr>h_level := lvl\<rparr>)))"

definition set_level :: "int \<Rightarrow> world \<Rightarrow> world" where
  "set_level lvl w =
     w\<lparr>heap := fold (Handler_setLevel lvl) (coloredlogs_handlers w) (heap w),
       logger_level := lvl\<rparr>"

definition disable_logger :: "bool \<Rightarrow> world \<Rightarrow> world" where
  "disable_logger disabled w =
     (let w1 = (if disabled
                then w\<lparr>sys_stdout := OriginalStream, sys_stderr := OriginalStream\<rparr>
                else w\<lparr>sys_stdout := stdout_stream w, sys_stderr := stderr_stream w\<rparr>)
      in w1\<lparr>logger_disabled := disabled\<rparr>)"

definition redirect_stdout :: "bool \<Rightarrow> int \<Rightarrow> world \<Rightarrow> world" where
  "redirect_stdout enabled log_level w =
     (let w1 = (if enabled
                then (case stdout_wrapper w of
                        Some sw \<Rightarrow> w\<lparr>stdout_wrapper := Some (sw\<lparr>out_log_level := log_level\<rparr>)\<rparr>
                      | None \<Rightarrow> w\<lparr>stdout_wrapper := Some \<lparr>out_log_level = log_level\<rparr>\<rparr>)
                     \<lparr>stdout_stream := WrapperStream\<rparr>
                else w\<lparr>stdout_stream := OriginalStream\<rparr>)
      in w1\<lparr>sys_stdout := stdout_stream w1\<rparr>)"

definition redirect_stderr :: "bool \<Rightarrow> int \<Rightarrow> world \<Rightarrow> world" where
  "redirect_stderr enabled log_level w =
     (let w1 = (if enabled
                then (case stderr_wrapper w of
                        Some b \<Rightarrow> w\<lparr>stderr_wrapper := Some (b\<lparr>err_log_level := log_level\<rparr>)\<rparr>
                      | None \<Rightarrow>
                          w\<lparr>stderr_wrapper := Some \<lparr>err_log_level = log_level, err_buffer = []\<rparr>\<rparr>)
                     \<lparr>stderr_stream := WrapperStream\<rparr>
                else w\<lparr>stderr_stream := OriginalStream\<rparr>)
      in w1\<lparr>sys_stderr := stderr_stream w1\<rparr>)"

text \<open>
  The arguments of \<open>use_file\<close> and \<open>use_loggly\<close> other than \<open>enabled\<close>. A file name,
  token or tag can be \<open>None\<close>. The model covers the runs in which the handler's
  constructor returns (a valid rotation unit, a file system that accepts the directory and
  the file).
\<close>

record file_args =
  fa_file_name :: "string option"
  fa_level :: int
  fa_when :: string
  fa_interval :: int
  fa_backup_count :: int
  fa_delay :: bool
  fa_utc :: bool
  fa_at_time :: "string option"
  fa_log_format :: "template option"
  fa_date_format :: "string option"

record loggly_args =
  la_loggly_token :: "string option"
  la_loggly_tag :: "string option"
  la_level :: int
  la_log_format :: "template option"
  la_date_format :: "string option"

text \<open>\<open>Logger.addHandler\<close> appends a handler that is not in the list; \<open>removeHandler\<close> removes it.\<close>

definition add_handler :: "nat \<Rightarrow> world \<Rightarrow> world" where
  "add_handler hid w =
     (if hid \<in> set (logger_handlers w) then w
      else w\<lparr>logger_handlers := logger_handlers w @ [hid]\<rparr>)"

definition remove_handler :: "nat \<Rightarrow> world \<Rightarrow> world" where
  "remove_handler hid w = w\<lparr>logger_handlers := remove1 hid (logger_handlers w)\<rparr>"

text \<open>\<open>Logger.addFilter\<close> and \<open>removeFilter\<close>, which \<open>LogOne\<close> hands through.\<close>

definition add_filter :: "(log_record \<Rightarrow> bool) \<Rightarrow> world \<Rightarrow> world" where
  "add_filter f w =
     (if f \<in> set (logger_filters w) then w
      else w\<lparr>logger_filters := logger_filters w @ [f]\<rparr>)"

definition remove_filter :: "(log_record \<Rightarrow> bool) \<Rightarrow> world \<Rightarrow> world" where
  "remove_filter f w = w\<lparr>logger_filters := remove1 f (logger_filters w)\<rparr>"

text \<open>
  \<open>use_file\<close> and \<open>use_loggly\<close> return the exception they raise, if any, and the state as
  it is at that moment: an exception undoes nothing.
\<close>

definition use_file :: "bool \<Rightarrow> file_args \<Rightarrow> world \<Rightarrow> exception option \<times> world" where
  "use_file enabled a w =
     (if enabled then
        (case file_handler w of
           Some hid \<Rightarrow> (None, w)
         | None \<Rightarrow>
             (case fa_file_name a of
                None \<Rightarrow> (Some (AssertionError ''File name is missing!''), w)
              | Some file_name \<Rightarrow>
                  if file_name = [] then (Some (AssertionError ''File name is missing!''), w)
                  else
                    (let hid = next_id w;
                         h = \<lparr>h_kind = TimedRotatingFileHandler
                                \<lparr>fc_filename = file_name, fc_when = fa_when a,
                                 fc_interval = fa_interval a, fc_backupCount = fa_backup_count a,
                                 fc_delay = fa_delay a, fc_utc = fa_utc a,
                                 fc_atTime = fa_at_time a\<rparr>,
                              h_level = fa_level a,
                              h_fmt = or_default (fa_log_format a) file_format,
                              h_datefmt = fa_date_format a, h_filters = []\<rparr>;
                         w1 = w\<lparr>heap := (heap w)(hid := Some h), next_id := Suc hid,
                                file_handler := Some hid\<rparr>
                     in (None, add_handler hid w1))))
      else
        (case file_handler w of
           Some hid \<Rightarrow> (None, (remove_handler hid w)\<lparr>file_handler := None\<rparr>)
         | None \<Rightarrow> (None, w)))"

definition loggly_url :: "string \<Rightarrow> string \<Rightarrow> string" where
  "loggly_url token tag = ''https://logs-01.loggly.com/inputs/'' @ token @ ''/tag/'' @ tag"

definition use_loggly :: "bool \<Rightarrow> loggly_args \<Rightarrow> world \<Rightarrow> exception option \<times> world" where
  "use_loggly enabled a w =
     (if enabled then
        (case loggly_handler w of
           Some hid \<Rightarrow> (None, w)
         | None \<Rightarrow>
             (case la_loggly_token a of
                None \<Rightarrow> (Some (AssertionError ''Loggly token is missing!''), w)
              | Some loggly_token \<Rightarrow>
                  if loggly_token = [] then (Some (AssertionError ''Loggly token is missing!''), w)
                  else
                    (let loggly_tag = or_default (la_loggly_tag a) (logger_name w);
                         hid = next_id w;
                         h = \<lparr>h_kind = LogglyHandler (loggly_url loggly_token loggly_tag),
                              h_level = la_level a,
                              h_fmt = or_default (la_log_format a) loggly_format,
                              h_datefmt = la_date_format a, h_filters = []\<rparr>;
                         w1 = w\<lparr>heap := (heap w)(hid := Some h), next_id := Suc hid,
                                loggly_handler := Some hid\<rparr>
                     in (None, add_handler hid w1))))
      else
        (case loggly_handler w of
           Some hid \<Rightarrow> (None, (remove_handler hid w)\<lparr>loggly_handler := None\<rparr>)
         | None \<Rightarrow> (None, w)))"

subsection \<open>Programs over one \<open>LogOne\<close>\<close>

text \<open>
  What a program can do with the object and the two standard streams. An exception that
  leaves an operation is caught by the program, which goes on with the state as it is.
\<close>

datatype op =
    SetLevel int
  | DisableLogger bool
  | RedirectStdout bool int
  | RedirectStderr bool int
  | UseFile bool file_args
  | UseLoggly bool loggly_args
  | AddFilter "log_record \<Rightarrow> bool"
  | RemoveFilter "log_record \<Rightarrow> bool"
  | Log env int string "string list" "string list option"
  | StdoutWrite env string
  | StderrWrite string
  | StderrFlush env

fun step :: "op \<Rightarrow> world \<Rightarrow> world" where
  "step (SetLevel lvl) w = set_level lvl w"
| "step (DisableLogger d) w = disable_logger d w"
| "step (RedirectStdout en lvl) w = redirect_stdout en lvl w"
| "step (RedirectStderr en lvl) w = redirect_stderr en lvl w"
| "step (UseFile en a) w = snd (use_file en a w)"
| "step (UseLoggly en a) w = snd (use_loggly en a w)"
| "step (AddFilter f) w = add_filter f w"
| "step (RemoveFilter f) w = remove_filter f w"
| "step (Log e lvl m a ei) w = snd (Logger_log e lvl m a ei w)"
| "step (StdoutWrite e s) w = snd (sys_stdout_write e s w)"
| "step (StderrWrite s) w = sys_stderr_write s w"
| "step (StderrFlush e) w = snd (sys_stderr_flush e w)"

definition run :: "op list \<Rightarrow> world \<Rightarrow> world" where
  "run ops w = fold step ops w"

subsection \<open>Reading the observations\<close>

text \<open>The events an operation added, and the ones that concern one handler.\<close>

definition new_events :: "world \<Rightarrow> world \<Rightarrow> event list" where
  "new_events w w' = drop (length (events w)) (events w')"

fun is_Call :: "event \<Rightarrow> bool" where
  "is_Call (Call lvl m) = True"
| "is_Call ev = False"

fun event_sink :: "event \<Rightarrow> nat option" where
  "event_sink (Handle hid) = Some hid"
| "event_sink (Write hid s) = Some hid"
| "event_sink (Post hid u b) = Some hid"
| "event_sink (HandleError hid) = Some hid"
| "event_sink ev = None"

definition sink_events :: "nat \<Rightarrow> event list \<Rightarrow> event list" where
  "sink_events hid evs = filter (\<lambda>ev. event_sink ev = Some hid) evs"

subsection \<open>What a dispatch can change\<close>

text \<open>
  Handing a record to handlers adds events other than calls of \<open>log\<close> and can append text
  to the buffer of the error wrapper (through \<open>handleError\<close>); nothing else changes.
\<close>

definition wrapper_grows :: "StdErrWrapper option \<Rightarrow> StdErrWrapper option \<Rightarrow> bool" where
  "wrapper_grows a b =
     (case a of None \<Rightarrow> b = None
      | Some x \<Rightarrow> (\<exists>d. b = Some (x\<lparr>err_buffer := err_buffer x @ d\<rparr>)))"

definition dispatched :: "world \<Rightarrow> world \<Rightarrow> bool" where
  "dispatched w w' =
     (\<exists>evs b. w' = w\<lparr>events := events w @ evs, stderr_wrapper := b\<rparr> \<and>
        (\<forall>ev \<in> set evs. \<not> is_Call ev) \<and> wrapper_grows (stderr_wrapper w) b)"

subsection \<open>Handler objects of one \<open>LogOne\<close>\<close>

text \<open>
  The handlers listed in \<open>__coloredlogs_handlers\<close> exist, and the file handler and the
  Loggly handler, when attached, exist and are not among them: they are created after the
  list was taken.
\<close>

definition apart :: "world \<Rightarrow> bool" where
  "apart w =
     ((\<forall>i \<in> set (coloredlogs_handlers w). i < next_id w \<and> heap w i \<noteq> None) \<and>
      (\<forall>i. file_handler w = Some i \<longrightarrow>
           i < next_id w \<and> i \<notin> set (coloredlogs_handlers w) \<and> heap w i \<noteq> None) \<and>
      (\<forall>i. loggly_handler w = Some i \<longrightarrow>
           i < next_id w \<and> i \<notin> set (coloredlogs_handlers w) \<and> heap w i \<noteq> None))"

subsection \<open>What one handler does with a record\<close>

text \<open>
  What a handler does with a record does not depend on the state: the text its formatter
  gives or the exception it raises, the exception that leaves the handler, the record as
  the handler leaves it for the handlers after it, and the events that are the handler's
  own. \<open>dispatch\<close> is \<open>callHandlers\<close> read that way, over the handler objects themselves.
\<close>

definition format_text :: "env \<Rightarrow> template \<Rightarrow> log_record \<Rightarrow> exception + string" where
  "format_text e fmt r =
     (case Formatter_format e fmt r of Inl x \<Rightarrow> Inl x | Inr (s, r1) \<Rightarrow> Inr s)"

definition handler_raises :: "env \<Rightarrow> handler \<Rightarrow> log_record \<Rightarrow> exception option" where
  "handler_raises e h r =
     (case h_kind h of
        StreamHandler coloured \<Rightarrow> None
      | TimedRotatingFileHandler c \<Rightarrow> None
      | LogglyHandler loggly_api \<Rightarrow>
          (case Formatter_format e (h_fmt h) (loggly_record (apply_filters e h r)) of
             Inl x \<Rightarrow> Some x
           | Inr (s, r1) \<Rightarrow> None))"

definition record_after :: "env \<Rightarrow> handler \<Rightarrow> log_record \<Rightarrow> log_record" where
  "record_after e h r =
     (case h_kind h of
        StreamHandler coloured \<Rightarrow>
          (case Formatter_format e (h_fmt h) (apply_filters e h r) of
             Inl x \<Rightarrow> apply_filters e h r
           | Inr (s, r1) \<Rightarrow> if coloured then apply_filters e h r else r1)
      | TimedRotatingFileHandler c \<Rightarrow>
          (case Formatter_format e (h_fmt h) (apply_filters e h r) of
             Inl x \<Rightarrow> apply_filters e h r
           | Inr (s, r1) \<Rightarrow> r1)
      | LogglyHandler loggly_api \<Rightarrow>
          (case Formatter_format e (h_fmt h) (loggly_record (apply_filters e h r)) of
             Inl x \<Rightarrow> loggly_record (apply_filters e h r)
           | Inr (s, r1) \<Rightarrow> r1))"

definition own_events :: "env \<Rightarrow> nat \<Rightarrow> handler \<Rightarrow> log_record \<Rightarrow> event list" where
  "own_events e hid h r =
     Handle hid #
     (case h_kind h of
        StreamHandler coloured \<Rightarrow>
          (case format_text e (h_fmt h) (apply_filters e h r) of
             Inl x \<Rightarrow> [HandleError hid]
           | Inr s \<Rightarrow> [Write hid (s @ [nl])])
      | TimedRotatingFileHandler c \<Rightarrow>
          (case format_text e (h_fmt h) (apply_filters e h r) of
             Inl x \<Rightarrow> [HandleError hid]
           | Inr s \<Rightarrow> [Write hid (s @ [nl])])
      | LogglyHandler loggly_api \<Rightarrow>
          (case format_text e (h_fmt h) (loggly_record (apply_filters e h r)) of
             Inl x \<Rightarrow> []
           | Inr s \<Rightarrow>
               Post hid loggly_api s #
               (if try_post (post e) = None then [] else [HandleError hid])))"

fun dispatch ::
  "env \<Rightarrow> (nat \<times> handler) list \<Rightarrow> log_record \<Rightarrow> exception option \<times> log_record \<times> event list" where
  "dispatch e [] r = (None, r, [])"
| "dispatch e ((hid, h) # hs) r =
     (if levelno r \<ge> h_level h
      then (case handler_raises e h r of
              Some x \<Rightarrow> (Some x, record_after e h r, own_events e hid h r)
            | None \<Rightarrow>
                (case dispatch e hs (record_after e h r) of
                   (x, r1, evs) \<Rightarrow> (x, r1, own_events e hid h r @ evs)))
      else dispatch e hs r)"

definition is_loggly :: "handler \<Rightarrow> bool" where
  "is_loggly h = (case h_kind h of LogglyHandler loggly_api \<Rightarrow> True | _ \<Rightarrow> False)"

subsection \<open>The program of \<open>example.py\<close>\<close>

text \<open>
  The logger of \<open>example.py\<close>, constructed with the default level \<open>WARNING\<close> and colours
  under a root logger at \<open>WARNING\<close>, then with the file handler and the Loggly handler
  attached as the example does (both at \<open>DEBUG\<close>). The program is \<open>example.py\<close>; every
  other attribute is rendered as a dash; the calls carry no arguments.
\<close>

definition example_file_args :: file_args where
  "example_file_args =
     \<lparr>fa_file_name = Some ''logs/example.log'', fa_level = 10, fa_when = ''d'',
      fa_interval = 1, fa_backup_count = 10, fa_delay = False, fa_utc = False,
      fa_at_time = None, fa_log_format = None, fa_date_format = None\<rparr>"

definition example_loggly_args :: loggly_args where
  "example_loggly_args =
     \<lparr>la_loggly_token = Some ''YOUR-CUSTOMER-TOKEN'', la_loggly_tag = Some ''Python,Example'',
      la_level = 10, la_log_format = None, la_date_format = None\<rparr>"

definition example_env :: env where
  "example_env =
     \<lparr>post = Response 200 ok_content, diag = ''--- Logging error ---'',
      render = (\<lambda>k. ''-''), filter_value = (\<lambda>k. ''example.py''),
      percent = (\<lambda>m a. Inl (TypeError ''not all arguments converted during string formatting''))\<rparr>"

definition example_fresh :: world where
  "example_fresh = LogOne_init ''example'' 30 True None None 30 0"

definition example_file :: world where
  "example_file = snd (use_file True example_file_args example_fresh)"

definition example_both :: world where
  "example_both = snd (use_loggly True example_loggly_args example_file)"

text \<open>
  Two records of that logger at \<open>ERROR\<close>, one of them with an attached error as
  \<open>logger.exception\<close> makes it, and the address the Loggly handler posts to.
\<close>

definition example_record :: log_record where
  "example_record = makeRecord example_env 40 ''Error message'' [] None"

definition example_traceback :: "string list" where
  "example_traceback =
     [''Traceback (most recent call last):'' @ [nl], ''ZeroDivisionError: division by zero'' @ [nl]]"

definition example_exc_record :: log_record where
  "example_exc_record = makeRecord example_env 40 ''boom'' [] (Some example_traceback)"

definition example_url :: string where
  "example_url = ''https://logs-01.loggly.com/inputs/YOUR-CUSTOMER-TOKEN/tag/Python,Example''"

text \<open>The three handler objects of that logger.\<close>

definition example_console_handler :: handler where
  "example_console_handler =
     \<lparr>h_kind = StreamHandler True, h_level = 30, h_fmt = console_format, h_datefmt = None,
      h_filters = [''programname'']\<rparr>"

definition example_file_handler :: handler where
  "example_file_handler =
     \<lparr>h_kind = TimedRotatingFileHandler
        \<lparr>fc_filename = ''logs/example.log'', fc_when = ''d'', fc_interval = 1,
         fc_backupCount = 10, fc_delay = False, fc_utc = False, fc_atTime = None\<rparr>,
      h_level = 10, h_fmt = file_format, h_datefmt = None, h_filters = []\<rparr>"

definition example_loggly_handler :: handler where
  "example_loggly_handler =
     \<lparr>h_kind = LogglyHandler example_url, h_level = 10, h_fmt = loggly_format,
      h_datefmt = None, h_filters = []\<rparr>"

definition example_handlers :: "(nat \<times> handler) list" where
  "example_handlers =
     [(0, example_console_handler), (1, example_file_handler), (2, example_loggly_handler)]"

text \<open>
  The message that \<open>LogglyHandler.emit\<close> gives the second record, and the JSON text of the
  default Loggly format for a message.
\<close>

definition example_flat :: string where
  "example_flat =
     ''boom'' @ [bs] @ ''nTraceback (most recent call last):'' @ [bs] @
     ''nZeroDivisionError: division by zero'' @ [bs] @ ''n''"

definition example_json :: "string \<Rightarrow> string" where
  "example_json m =
     ''{'' @ q ''name'' @ '':'' @ q ''-'' @ '','' @ q ''process'' @ '':'' @ q ''-'' @ '','' @
     q ''levelname'' @ '':'' @ q ''-'' @ '','' @ q ''time'' @ '':'' @ q ''-'' @ '','' @
     q ''filename'' @ '':'' @ q ''-'' @ '','' @ q ''programname'' @ '':'' @ q ''example.py'' @ '','' @
     q ''module'' @ '':'' @ q ''-'' @ '','' @ q ''funcName'' @ '':'' @ q ''-'' @ '','' @
     q ''lineno'' @ '':'' @ q ''-'' @ '','' @ q ''message'' @ '':'' @ q m @ ''}''"



definition quiet_handlers :: "(nat \<times> handler) list" where
  "quiet_handlers = [(0, example_console_handler\<lparr>h_level := 50\<rparr>), (1, example_loggly_handler)]"

subsection \<open>Switching redirection off\<close>

text \<open>
  The operations that take the error stream away from the wrapper: \<open>redirect_stderr\<close>
  with \<open>enabled=False\<close>, and \<open>disable_logger\<close> (with either argument, so that disabling
  and enabling again is covered).
\<close>

fun is_disabling :: "op \<Rightarrow> bool" where
  "is_disabling (RedirectStderr en lvl) = (\<not> en)"
| "is_disabling (DisableLogger d) = True"
| "is_disabling x = False"

section \<open>Properties\<close>

section \<open>Frame of a dispatch\<close>

lemma wrapper_grows_refl: "wrapper_grows a a"
proof (cases a)
  case None
  then show ?thesis by (simp add: wrapper_grows_def)
next
  case (Some x)
  have "x = x\<lparr>err_buffer := err_buffer x @ []\<rparr>" by simp
  then show ?thesis using Some unfolding wrapper_grows_def by (simp only: option.case) blast
qed

lemma wrapper_grows_trans: "wrapper_grows a b \<Longrightarrow> wrapper_grows b c \<Longrightarrow> wrapper_grows a c"
proof (cases a)
  case None
  assume "wrapper_grows a b" "wrapper_grows b c"
  with None show ?thesis by (simp add: wrapper_grows_def)
next
  case (Some x)
  assume ab: "wrapper_grows a b" and bc: "wrapper_grows b c"
  from ab Some obtain d1 where b: "b = Some (x\<lparr>err_buffer := err_buffer x @ d1\<rparr>)"
    by (auto simp: wrapper_grows_def)
  from bc b obtain d2 where
    "c = Some (x\<lparr>err_buffer := err_buffer x @ d1\<rparr>\<lparr>err_buffer := (err_buffer x @ d1) @ d2\<rparr>)"
    by (auto simp: wrapper_grows_def)
  then have "c = Some (x\<lparr>err_buffer := err_buffer x @ (d1 @ d2)\<rparr>)" by simp
  with Some show ?thesis unfolding wrapper_grows_def by (simp only: option.case) blast
qed

lemma dispatched_refl: "dispatched w w"
  unfolding dispatched_def
  by (rule exI [of _ "[]"], rule exI [of _ "stderr_wrapper w"]) (simp add: wrapper_grows_refl)

lemma dispatched_trans:
  assumes "dispatched a b" and "dispatched b c"
  shows "dispatched a c"
proof -
  from assms(1) obtain e1 b1 where 1: "b = a\<lparr>events := events a @ e1, stderr_wrapper := b1\<rparr>"
    "\<forall>ev \<in> set e1. \<not> is_Call ev" "wrapper_grows (stderr_wrapper a) b1"
    unfolding dispatched_def by blast
  from assms(2) obtain e2 b2 where 2: "c = b\<lparr>events := events b @ e2, stderr_wrapper := b2\<rparr>"
    "\<forall>ev \<in> set e2. \<not> is_Call ev" "wrapper_grows (stderr_wrapper b) b2"
    unfolding dispatched_def by blast
  have "c = a\<lparr>events := events a @ (e1 @ e2), stderr_wrapper := b2\<rparr>"
    using 1(1) 2(1) by simp
  moreover have "\<forall>ev \<in> set (e1 @ e2). \<not> is_Call ev" using 1(2) 2(2) by auto
  moreover have "wrapper_grows (stderr_wrapper a) b2"
    using 1(1) 1(3) 2(3) by (auto intro: wrapper_grows_trans)
  ultimately show ?thesis unfolding dispatched_def by blast
qed

lemma dispatched_event: "\<not> is_Call ev \<Longrightarrow> dispatched w (w\<lparr>events := events w @ [ev]\<rparr>)"
  unfolding dispatched_def
  by (rule exI [of _ "[ev]"], rule exI [of _ "stderr_wrapper w"]) (simp add: wrapper_grows_refl)

lemma dispatched_sys_stderr_write: "dispatched w (sys_stderr_write s w)"
proof (cases "sys_stderr w")
  case OriginalStream
  then show ?thesis by (simp add: sys_stderr_write_def dispatched_event)
next
  case WrapperStream
  show ?thesis
  proof (cases "stderr_wrapper w")
    case None
    with WrapperStream show ?thesis by (simp add: sys_stderr_write_def dispatched_refl)
  next
    case (Some x)
    have "wrapper_grows (stderr_wrapper w) (Some (StdErrWrapper_write x s))"
      using Some by (auto simp: wrapper_grows_def StdErrWrapper_write_def)
    then have "dispatched w (w\<lparr>stderr_wrapper := Some (StdErrWrapper_write x s)\<rparr>)"
      unfolding dispatched_def
      by (intro exI [of _ "[]"] exI [of _ "Some (StdErrWrapper_write x s)"]) simp
    with WrapperStream Some show ?thesis by (simp add: sys_stderr_write_def)
  qed
qed

lemma dispatched_handleError: "dispatched w (handleError e hid w)"
  unfolding handleError_def
  by (rule dispatched_trans [OF dispatched_event dispatched_sys_stderr_write]) simp

lemma dispatched_StreamHandler_emit: "dispatched w (snd (StreamHandler_emit e hid c fmt r w))"
  by (auto simp: StreamHandler_emit_def dispatched_event dispatched_handleError
      split: sum.split prod.split)

lemma try_post_caught: "try_post p = Some x \<Longrightarrow> except_clause x"
  by (auto simp: try_post_def split: post_result.splits if_splits)

lemma dispatched_LogglyHandler_emit: "dispatched w (snd (snd (LogglyHandler_emit e hid u fmt r w)))"
proof (cases "Formatter_format e fmt (loggly_record r)")
  case (Inl x)
  then show ?thesis by (simp add: LogglyHandler_emit_def Let_def dispatched_refl)
next
  case (Inr p)
  obtain body r2 where p: "p = (body, r2)" by (cases p)
  let ?w1 = "w\<lparr>events := events w @ [Post hid u body]\<rparr>"
  have a: "dispatched w ?w1" by (rule dispatched_event) simp
  have b: "dispatched w (handleError e hid ?w1)"
    by (rule dispatched_trans [OF a dispatched_handleError])
  show ?thesis
    using a b Inr p
    by (auto simp: LogglyHandler_emit_def Let_def split: option.split)
qed

lemma dispatched_Handler_handle: "dispatched w (snd (snd (Handler_handle e hid h r w)))"
proof -
  let ?w1 = "w\<lparr>events := events w @ [Handle hid]\<rparr>"
  have a: "dispatched w ?w1" by (rule dispatched_event) simp
  show ?thesis
  proof (cases "h_kind h")
    case (StreamHandler c)
    then show ?thesis
      using dispatched_trans [OF a dispatched_StreamHandler_emit]
      by (simp add: Handler_handle_def Let_def split_beta)
  next
    case (TimedRotatingFileHandler c)
    then show ?thesis
      using dispatched_trans [OF a dispatched_StreamHandler_emit]
      by (simp add: Handler_handle_def Let_def split_beta)
  next
    case (LogglyHandler u)
    then show ?thesis
      using dispatched_trans [OF a dispatched_LogglyHandler_emit]
      by (simp add: Handler_handle_def Let_def)
  qed
qed

lemma dispatched_heap: "dispatched w w' \<Longrightarrow> heap w' = heap w"
  by (auto simp: dispatched_def)

lemma dispatched_callHandlers: "dispatched w (snd (snd (callHandlers e hs r w)))"
proof (induction hs arbitrary: r w)
  case Nil
  show ?case by (simp add: dispatched_refl)
next
  case (Cons hid hs)
  show ?case
  proof (cases "heap w hid")
    case None
    then show ?thesis using Cons.IH by simp
  next
    case (Some h)
    show ?thesis
    proof (cases "levelno r \<ge> h_level h")
      case False
      with Some show ?thesis using Cons.IH by simp
    next
      case True
      obtain x r1 w1 where hh: "Handler_handle e hid h r w = (x, r1, w1)" by (rule prod_cases3)
      have d1: "dispatched w w1" using dispatched_Handler_handle [of w e hid h r] hh by simp
      show ?thesis
      proof (cases x)
        case None
        have "dispatched w1 (snd (snd (callHandlers e hs r1 w1)))" by (rule Cons.IH)
        then show ?thesis using Some True hh None d1 by (simp add: dispatched_trans)
      next
        case (Some y)
        then show ?thesis using \<open>heap w hid = Some h\<close> True hh d1 by simp
      qed
    qed
  qed
qed

lemma dispatched_Logger_log:
  "dispatched (w\<lparr>events := events w @ [Call lvl m]\<rparr>) (snd (Logger_log e lvl m a ei w))"
  by (simp add: Logger_log_def Let_def split_beta dispatched_refl dispatched_callHandlers)

lemma new_events_append: "events w' = events w @ evs \<Longrightarrow> new_events w w' = evs"
  by (simp add: new_events_def)

lemma Logger_log_events:
  "\<exists>evs. events (snd (Logger_log e lvl m a ei w)) = events w @ Call lvl m # evs \<and>
         (\<forall>ev \<in> set evs. \<not> is_Call ev)"
  using dispatched_Logger_log [of w lvl m e a ei] by (auto simp: dispatched_def)

lemma Logger_log_calls:
  "filter is_Call (new_events w (snd (Logger_log e lvl m a ei w))) = [Call lvl m]"
proof -
  obtain evs where "events (snd (Logger_log e lvl m a ei w)) = events w @ Call lvl m # evs"
    "\<forall>ev \<in> set evs. \<not> is_Call ev" using Logger_log_events by blast
  then show ?thesis by (simp add: new_events_def filter_empty_conv)
qed

lemma Logger_log_frame:
  "sys_stderr (snd (Logger_log e lvl m a ei w)) = sys_stderr w"
  "wrapper_grows (stderr_wrapper w) (stderr_wrapper (snd (Logger_log e lvl m a ei w)))"
  using dispatched_Logger_log [of w lvl m e a ei] by (auto simp: dispatched_def)


section \<open>Handlers one by one\<close>

lemma sink_events_append: "sink_events j (xs @ ys) = sink_events j xs @ sink_events j ys"
  by (simp add: sink_events_def)

lemma sink_events_Cons_cong:
  "\<forall>j. sink_events j xs = sink_events j ys \<Longrightarrow>
   \<forall>j. sink_events j (ev # xs) = sink_events j (ev # ys)"
  by (simp add: sink_events_def)

lemma sink_events_handleError:
  "\<exists>evs. events (handleError e k w) = events w @ evs \<and>
     (\<forall>j. sink_events j evs = sink_events j [HandleError k])"
  by (auto simp: handleError_def sys_stderr_write_def sink_events_def split: stream.split option.split)

lemma format_text_Inl: "Formatter_format e fmt r = Inl x \<Longrightarrow> format_text e fmt r = Inl x"
  by (simp add: format_text_def)

lemma format_text_Inr: "Formatter_format e fmt r = Inr (s, r1) \<Longrightarrow> format_text e fmt r = Inr s"
  by (simp add: format_text_def)

lemma StreamHandler_emit_char:
  "fst (StreamHandler_emit e k c fmt r w) =
     (case Formatter_format e fmt r of Inl x \<Rightarrow> r | Inr (s, r1) \<Rightarrow> if c then r else r1)"
  "\<exists>evs. events (snd (StreamHandler_emit e k c fmt r w)) = events w @ evs \<and>
     (\<forall>j. sink_events j evs =
        sink_events j (case format_text e fmt r of
                         Inl x \<Rightarrow> [HandleError k]
                       | Inr s \<Rightarrow> [Write k (s @ [nl])]))"
proof -
  show "fst (StreamHandler_emit e k c fmt r w) =
     (case Formatter_format e fmt r of Inl x \<Rightarrow> r | Inr (s, r1) \<Rightarrow> if c then r else r1)"
    by (simp add: StreamHandler_emit_def split: sum.split prod.split)
  show "\<exists>evs. events (snd (StreamHandler_emit e k c fmt r w)) = events w @ evs \<and>
     (\<forall>j. sink_events j evs =
        sink_events j (case format_text e fmt r of
                         Inl x \<Rightarrow> [HandleError k]
                       | Inr s \<Rightarrow> [Write k (s @ [nl])]))"
  proof (cases "Formatter_format e fmt r")
    case (Inl x)
    then show ?thesis
      using sink_events_handleError [of e k w]
      by (simp add: StreamHandler_emit_def format_text_Inl)
  next
    case (Inr p)
    obtain s r1 where p: "p = (s, r1)" by (cases p)
    show ?thesis
      using Inr p
      by (intro exI [of _ "[Write k (s @ [nl])]"]) (simp add: StreamHandler_emit_def format_text_def)
  qed
qed

lemma LogglyHandler_emit_char:
  "fst (LogglyHandler_emit e k u fmt r w) =
     (case Formatter_format e fmt (loggly_record r) of Inl x \<Rightarrow> Some x | Inr p \<Rightarrow> None)"
  "fst (snd (LogglyHandler_emit e k u fmt r w)) =
     (case Formatter_format e fmt (loggly_record r) of
        Inl x \<Rightarrow> loggly_record r | Inr (s, r1) \<Rightarrow> r1)"
  "\<exists>evs. events (snd (snd (LogglyHandler_emit e k u fmt r w))) = events w @ evs \<and>
     (\<forall>j. sink_events j evs =
        sink_events j (case format_text e fmt (loggly_record r) of
                         Inl x \<Rightarrow> []
                       | Inr s \<Rightarrow> Post k u s # (if try_post (post e) = None then [] else [HandleError k])))"
proof -
  show "fst (LogglyHandler_emit e k u fmt r w) =
     (case Formatter_format e fmt (loggly_record r) of Inl x \<Rightarrow> Some x | Inr p \<Rightarrow> None)"
    by (auto simp: LogglyHandler_emit_def Let_def try_post_caught split: sum.split option.split)
  show "fst (snd (LogglyHandler_emit e k u fmt r w)) =
     (case Formatter_format e fmt (loggly_record r) of
        Inl x \<Rightarrow> loggly_record r | Inr (s, r1) \<Rightarrow> r1)"
    by (auto simp: LogglyHandler_emit_def Let_def split: sum.split option.split)
  show "\<exists>evs. events (snd (snd (LogglyHandler_emit e k u fmt r w))) = events w @ evs \<and>
     (\<forall>j. sink_events j evs =
        sink_events j (case format_text e fmt (loggly_record r) of
                         Inl x \<Rightarrow> []
                       | Inr s \<Rightarrow> Post k u s # (if try_post (post e) = None then [] else [HandleError k])))"
  proof (cases "Formatter_format e fmt (loggly_record r)")
    case (Inl x)
    then show ?thesis
      by (intro exI [of _ "[]"]) (simp add: LogglyHandler_emit_def Let_def format_text_Inl)
  next
    case (Inr p)
    obtain s r1 where p: "p = (s, r1)" by (cases p)
    define w1 where "w1 = w\<lparr>events := events w @ [Post k u s]\<rparr>"
    have ft: "format_text e fmt (loggly_record r) = Inr s" using Inr p by (simp add: format_text_Inr)
    show ?thesis
    proof (cases "try_post (post e)")
      case None
      have "snd (snd (LogglyHandler_emit e k u fmt r w)) = w1"
        using Inr p None by (simp add: LogglyHandler_emit_def Let_def w1_def)
      then show ?thesis using None ft
        by (intro exI [of _ "[Post k u s]"]) (simp add: w1_def)
    next
      case (Some x)
      have sw: "snd (snd (LogglyHandler_emit e k u fmt r w)) = handleError e k w1"
        using Inr p Some try_post_caught [OF Some]
        by (simp add: LogglyHandler_emit_def Let_def w1_def)
      obtain evs where ev: "events (handleError e k w1) = events w1 @ evs"
        "\<forall>j. sink_events j evs = sink_events j [HandleError k]"
        using sink_events_handleError by blast
      have "events (snd (snd (LogglyHandler_emit e k u fmt r w))) = events w @ (Post k u s # evs)"
        using sw ev(1) by (simp add: w1_def)
      moreover have "\<forall>j. sink_events j (Post k u s # evs) =
          sink_events j (Post k u s # [HandleError k])"
        using ev(2) by (rule sink_events_Cons_cong)
      ultimately show ?thesis using Some ft by (intro exI [of _ "Post k u s # evs"]) simp
    qed
  qed
qed

lemma Handler_handle_char:
  "fst (Handler_handle e k h r w) = handler_raises e h r"
  "fst (snd (Handler_handle e k h r w)) = record_after e h r"
  "\<exists>evs. events (snd (snd (Handler_handle e k h r w))) = events w @ evs \<and>
     (\<forall>j. sink_events j evs = sink_events j (own_events e k h r))"
proof -
  show "fst (Handler_handle e k h r w) = handler_raises e h r"
    by (cases "h_kind h")
       (auto simp: Handler_handle_def handler_raises_def Let_def split_beta LogglyHandler_emit_char(1)
          split: sum.split)
  show "fst (snd (Handler_handle e k h r w)) = record_after e h r"
    by (cases "h_kind h")
       (auto simp: Handler_handle_def record_after_def Let_def split_beta
          StreamHandler_emit_char(1) LogglyHandler_emit_char(2) split: sum.split)
  define w1 where "w1 = w\<lparr>events := events w @ [Handle k]\<rparr>"
  define r0 where "r0 = apply_filters e h r"
  show "\<exists>evs. events (snd (snd (Handler_handle e k h r w))) = events w @ evs \<and>
     (\<forall>j. sink_events j evs = sink_events j (own_events e k h r))"
  proof (cases "h_kind h")
    case (StreamHandler c)
    obtain evs where ev: "events (snd (StreamHandler_emit e k c (h_fmt h) r0 w1)) = events w1 @ evs"
      "\<forall>j. sink_events j evs =
        sink_events j (case format_text e (h_fmt h) r0 of
                         Inl x \<Rightarrow> [HandleError k]
                       | Inr s \<Rightarrow> [Write k (s @ [nl])])"
      using StreamHandler_emit_char(2) by blast
    have "events (snd (snd (Handler_handle e k h r w))) = events w @ (Handle k # evs)"
      using StreamHandler ev(1) by (simp add: Handler_handle_def Let_def split_beta w1_def r0_def)
    moreover have "\<forall>j. sink_events j (Handle k # evs) = sink_events j (own_events e k h r)"
      using StreamHandler sink_events_Cons_cong [OF ev(2), of "Handle k"]
      by (simp add: own_events_def r0_def)
    ultimately show ?thesis by blast
  next
    case (TimedRotatingFileHandler c)
    obtain evs where ev: "events (snd (StreamHandler_emit e k False (h_fmt h) r0 w1)) = events w1 @ evs"
      "\<forall>j. sink_events j evs =
        sink_events j (case format_text e (h_fmt h) r0 of
                         Inl x \<Rightarrow> [HandleError k]
                       | Inr s \<Rightarrow> [Write k (s @ [nl])])"
      using StreamHandler_emit_char(2) by blast
    have "events (snd (snd (Handler_handle e k h r w))) = events w @ (Handle k # evs)"
      using TimedRotatingFileHandler ev(1)
      by (simp add: Handler_handle_def Let_def split_beta w1_def r0_def)
    moreover have "\<forall>j. sink_events j (Handle k # evs) = sink_events j (own_events e k h r)"
      using TimedRotatingFileHandler sink_events_Cons_cong [OF ev(2), of "Handle k"]
      by (simp add: own_events_def r0_def)
    ultimately show ?thesis by blast
  next
    case (LogglyHandler u)
    obtain evs where ev: "events (snd (snd (LogglyHandler_emit e k u (h_fmt h) r0 w1))) = events w1 @ evs"
      "\<forall>j. sink_events j evs =
        sink_events j (case format_text e (h_fmt h) (loggly_record r0) of
                         Inl x \<Rightarrow> []
                       | Inr s \<Rightarrow> Post k u s # (if try_post (post e) = None then [] else [HandleError k]))"
      using LogglyHandler_emit_char(3) by blast
    have "events (snd (snd (Handler_handle e k h r w))) = events w @ (Handle k # evs)"
      using LogglyHandler ev(1) by (simp add: Handler_handle_def Let_def w1_def r0_def)
    moreover have "\<forall>j. sink_events j (Handle k # evs) = sink_events j (own_events e k h r)"
      using LogglyHandler sink_events_Cons_cong [OF ev(2), of "Handle k"]
      by (simp add: own_events_def r0_def)
    ultimately show ?thesis by blast
  qed
qed

lemma callHandlers_dispatch:
  assumes "\<forall>(k, h) \<in> set khs. heap w k = Some h"
  shows "\<exists>x r1 w1 devs evs.
           callHandlers e (map fst khs) r w = (x, r1, w1) \<and>
           dispatch e khs r = (x, r1, devs) \<and>
           events w1 = events w @ evs \<and>
           (\<forall>j. sink_events j evs = sink_events j devs)"
  using assms
proof (induction khs arbitrary: r w)
  case Nil
  show ?case by (simp add: sink_events_def)
next
  case (Cons kh khs)
  obtain k h where kh: "kh = (k, h)" by (cases kh)
  have hk: "heap w k = Some h" using Cons.prems kh by simp
  have rest: "\<forall>(k, h) \<in> set khs. heap w k = Some h" using Cons.prems by simp
  show ?case
  proof (cases "levelno r \<ge> h_level h")
    case False
    from Cons.IH [OF rest, of r] show ?thesis using False hk kh by simp
  next
    case True
    define x where "x = fst (Handler_handle e k h r w)"
    define r1 where "r1 = fst (snd (Handler_handle e k h r w))"
    define w1 where "w1 = snd (snd (Handler_handle e k h r w))"
    have hh: "Handler_handle e k h r w = (x, r1, w1)" by (simp add: x_def r1_def w1_def)
    have x: "x = handler_raises e h r" unfolding x_def by (rule Handler_handle_char(1))
    have r1: "r1 = record_after e h r" unfolding r1_def by (rule Handler_handle_char(2))
    obtain ev1 where e1: "events w1 = events w @ ev1"
      "\<forall>j. sink_events j ev1 = sink_events j (own_events e k h r)"
      using Handler_handle_char(3) [of e k h r w] unfolding w1_def by blast
    have hp: "heap w1 = heap w"
      unfolding w1_def by (rule dispatched_heap [OF dispatched_Handler_handle])
    show ?thesis
    proof (cases x)
      case (Some y)
      have "callHandlers e (map fst (kh # khs)) r w = (Some y, r1, w1)"
        using True hk kh hh Some by simp
      moreover have "handler_raises e h r = Some y" using x Some by simp
      then have "dispatch e (kh # khs) r = (Some y, r1, own_events e k h r)"
        using True kh r1 by simp
      ultimately show ?thesis using e1 by blast
    next
      case None
      have rest1: "\<forall>(k, h) \<in> set khs. heap w1 k = Some h" using rest hp by simp
      from Cons.IH [OF rest1, of r1] obtain x2 r2 w2 devs ev2 where t:
        "callHandlers e (map fst khs) r1 w1 = (x2, r2, w2)"
        "dispatch e khs r1 = (x2, r2, devs)"
        "events w2 = events w1 @ ev2"
        "\<forall>j. sink_events j ev2 = sink_events j devs"
        by blast
      have "callHandlers e (map fst (kh # khs)) r w = (x2, r2, w2)"
        using True hk kh hh None t(1) by simp
      moreover have "handler_raises e h r = None" using x None by simp
      then have "dispatch e (kh # khs) r = (x2, r2, own_events e k h r @ devs)"
        using True kh r1 t(2) by simp
      moreover have "events w2 = events w @ (ev1 @ ev2)" using e1(1) t(3) by simp
      moreover have "\<forall>j. sink_events j (ev1 @ ev2) = sink_events j (own_events e k h r @ devs)"
        using e1(2) t(4) by (simp add: sink_events_append)
      ultimately show ?thesis by blast
    qed
  qed
qed

text \<open>The same for a call of \<open>log\<close> that reaches the handlers.\<close>

lemma Logger_log_dispatch:
  assumes "\<forall>(k, h) \<in> set khs. heap w k = Some h" and "logger_handlers w = map fst khs"
    and "isEnabledFor w lvl" and "list_all (\<lambda>f. f (makeRecord e lvl m a ei)) (logger_filters w)"
  shows "fst (Logger_log e lvl m a ei w) = fst (dispatch e khs (makeRecord e lvl m a ei))"
    and "\<forall>j. sink_events j (new_events w (snd (Logger_log e lvl m a ei w))) =
             sink_events j (snd (snd (dispatch e khs (makeRecord e lvl m a ei))))"
proof -
  define w0 where "w0 = w\<lparr>events := events w @ [Call lvl m]\<rparr>"
  define r where "r = makeRecord e lvl m a ei"
  have hp: "\<forall>(k, h) \<in> set khs. heap w0 k = Some h" using assms(1) by (simp add: w0_def)
  from callHandlers_dispatch [OF hp, of e r] obtain x r1 w1 devs evs where t:
    "callHandlers e (map fst khs) r w0 = (x, r1, w1)"
    "dispatch e khs r = (x, r1, devs)"
    "events w1 = events w0 @ evs"
    "\<forall>j. sink_events j evs = sink_events j devs"
    by blast
  have en: "isEnabledFor w0 lvl" "\<not> logger_disabled w0"
    using assms(3) by (auto simp: isEnabledFor_def getEffectiveLevel_def w0_def split: if_splits)
  have L: "Logger_log e lvl m a ei w = (x, w1)"
    using en assms(2) assms(4) t(1)
    by (simp add: Logger_log_def Let_def w0_def [symmetric] r_def [symmetric])
       (simp add: w0_def)
  show "fst (Logger_log e lvl m a ei w) = fst (dispatch e khs (makeRecord e lvl m a ei))"
    using L t(2) by (simp add: r_def)
  have "new_events w w1 = Call lvl m # evs" using t(3) by (simp add: new_events_def w0_def)
  then show "\<forall>j. sink_events j (new_events w (snd (Logger_log e lvl m a ei w))) =
             sink_events j (snd (snd (dispatch e khs (makeRecord e lvl m a ei))))"
    using L t(2) t(4) by (simp add: r_def sink_events_def)
qed


section \<open>Attaching and detaching the optional handlers\<close>

lemmas example_defs = example_file_args_def example_loggly_args_def example_env_def
  example_fresh_def example_file_def example_both_def

lemma example_file_eval:
  "example_file = example_fresh\<lparr>logger_handlers := [0, 1],
     heap := (heap example_fresh)(1 := Some \<lparr>h_kind = TimedRotatingFileHandler
                                \<lparr>fc_filename = ''logs/example.log'', fc_when = ''d'',
                                 fc_interval = 1, fc_backupCount = 10,
                                 fc_delay = False, fc_utc = False,
                                 fc_atTime = None\<rparr>,
                              h_level = 10,
                              h_fmt = file_format,
                              h_datefmt = None, h_filters = []\<rparr>), next_id := 2, file_handler := Some 1\<rparr>"
  by (simp add: example_defs use_file_def LogOne_init_def add_handler_def or_default_def Let_def)

text \<open>
  C3. For the file handler and for the Loggly handler alike: \<open>use_file\<close> / \<open>use_loggly\<close>
  with \<open>enabled=True\<close> while a handler of that kind is attached returns without raising
  and leaves the whole state as it is (the attached handler object, its rotation
  settings, level and format included), whatever the other arguments are; with
  \<open>enabled=False\<close> while none is attached it returns without raising and changes nothing.
\<close>

theorem attach_noop:
  "(file_handler w \<noteq> None \<longrightarrow> use_file True fa w = (None, w)) \<and>
   (file_handler w = None \<longrightarrow> use_file False fa w = (None, w)) \<and>
   (loggly_handler w \<noteq> None \<longrightarrow> use_loggly True la w = (None, w)) \<and>
   (loggly_handler w = None \<longrightarrow> use_loggly False la w = (None, w))"
  by (auto simp: use_file_def use_loggly_def)

lemma example_fresh_handlers: "file_handler example_fresh = None" "loggly_handler example_fresh = None"
  by (simp_all add: example_fresh_def LogOne_init_def)

lemma example_file_handlers: "file_handler example_file = Some 1" "loggly_handler example_file = None"
  by (simp_all add: example_file_eval example_fresh_handlers)

lemma example_file_fields:
  "logger_handlers example_file = [0, 1]" "next_id example_file = 2"
  "logger_name example_file = ''example''"
  by (simp_all add: example_file_eval example_fresh_def LogOne_init_def)

lemma example_both_eval:
  "example_both = example_file\<lparr>logger_handlers := [0, 1, 2],
     heap := (heap example_file)(2 := Some \<lparr>h_kind = LogglyHandler
                 ''https://logs-01.loggly.com/inputs/YOUR-CUSTOMER-TOKEN/tag/Python,Example'',
               h_level = 10, h_fmt = loggly_format, h_datefmt = None, h_filters = []\<rparr>),
     next_id := 3, loggly_handler := Some 2\<rparr>"
  unfolding example_both_def use_loggly_def
  by (simp add: example_file_handlers example_file_fields example_loggly_args_def Let_def
      add_handler_def or_default_def loggly_url_def)

lemma example_both_handlers: "file_handler example_both = Some 1" "loggly_handler example_both = Some 2"
  by (simp_all add: example_both_eval example_file_handlers)

text \<open>The four cases on the logger of the example, fresh and with both handlers attached.\<close>

theorem attach_noop_witness:
  "use_file True example_file_args example_both = (None, example_both) \<and>
   use_file False example_file_args example_fresh = (None, example_fresh) \<and>
   use_loggly True example_loggly_args example_both = (None, example_both) \<and>
   use_loggly False example_loggly_args example_fresh = (None, example_fresh)"
  using attach_noop [of example_both example_file_args example_loggly_args]
        attach_noop [of example_fresh example_file_args example_loggly_args]
  by (simp add: example_fresh_handlers example_both_handlers)

text \<open>
  C4. When no file handler is attached, \<open>use_file(enabled=True)\<close> with a file name that is
  \<open>None\<close> or empty raises the \<open>AssertionError\<close> of its \<open>assert\<close> at once, and the state at
  the raise is the state before the call: no handler object exists, none is attached.
  The same holds for \<open>use_loggly\<close> and a token that is \<open>None\<close> or empty.
\<close>

theorem attach_missing_parameter:
  "(file_handler w = None \<and> (fa_file_name fa = None \<or> fa_file_name fa = Some []) \<longrightarrow>
      use_file True fa w = (Some (AssertionError ''File name is missing!''), w)) \<and>
   (loggly_handler w = None \<and> (la_loggly_token la = None \<or> la_loggly_token la = Some []) \<longrightarrow>
      use_loggly True la w = (Some (AssertionError ''Loggly token is missing!''), w))"
  by (auto simp: use_file_def use_loggly_def)

text \<open>An empty file name on the fresh logger, a missing token once the file handler is attached.\<close>

theorem attach_missing_parameter_witness:
  "use_file True (example_file_args\<lparr>fa_file_name := Some []\<rparr>) example_fresh =
     (Some (AssertionError ''File name is missing!''), example_fresh) \<and>
   use_loggly True (example_loggly_args\<lparr>la_loggly_token := None\<rparr>) example_file =
     (Some (AssertionError ''Loggly token is missing!''), example_file)"
  using attach_missing_parameter [of example_fresh "example_file_args\<lparr>fa_file_name := Some []\<rparr>"
          "example_loggly_args\<lparr>la_loggly_token := None\<rparr>"]
        attach_missing_parameter [of example_file "example_file_args\<lparr>fa_file_name := Some []\<rparr>"
          "example_loggly_args\<lparr>la_loggly_token := None\<rparr>"]
  by (simp add: example_fresh_handlers example_file_handlers)


section \<open>The example states\<close>

lemma example_both_streams:
  "stderr_wrapper example_both = None" "stdout_wrapper example_both = None"
  "sys_stderr example_both = OriginalStream" "stderr_stream example_both = OriginalStream"
  by (simp_all add: example_both_eval example_file_eval example_fresh_def LogOne_init_def)

lemma example_both_logger:
  "logger_handlers example_both = [0, 1, 2]" "logger_disabled example_both = False"
  "manager_disable example_both = 0" "parent_level example_both = 30"
  "logger_level example_both = 0" "logger_filters example_both = []"
  "coloredlogs_handlers example_both = [0]"
  by (simp_all add: example_both_eval example_file_eval example_fresh_def LogOne_init_def)

lemma console_filters: "coloredlogs_filters console_format = [''programname'']"
  by (simp add: coloredlogs_filters_def console_format_def)

lemma example_both_heap:
  "heap example_both 0 = Some example_console_handler"
  "heap example_both 1 = Some example_file_handler"
  "heap example_both 2 = Some example_loggly_handler"
  by (simp_all add: example_both_eval example_file_eval example_fresh_def LogOne_init_def
      or_default_def example_url_def example_console_handler_def example_file_handler_def
      example_loggly_handler_def console_filters)

lemma example_both_heap_Suc: "heap example_both (Suc 0) = Some example_file_handler"
  using example_both_heap(2) unfolding One_nat_def .

lemma example_both_handlers_list:
  "\<forall>(k, h) \<in> set example_handlers. heap example_both k = Some h"
  "logger_handlers example_both = map fst example_handlers"
  by (simp_all add: example_handlers_def example_both_logger example_both_heap
      example_both_heap_Suc)

lemma example_both_run:
  "example_both = run [UseFile True example_file_args, UseLoggly True example_loggly_args]
     (LogOne_init ''example'' 30 True None None 30 0)"
  by (simp add: run_def example_both_def example_file_def example_fresh_def)

lemma example_set_level:
  "logger_handlers (set_level v example_both) = [0, 1, 2]"
  "logger_disabled (set_level v example_both) = False"
  "manager_disable (set_level v example_both) = 0"
  "logger_level (set_level v example_both) = v"
  "parent_level (set_level v example_both) = 30"
  "logger_filters (set_level v example_both) = []"
  "heap (set_level v example_both) 0 = Some (example_console_handler\<lparr>h_level := v\<rparr>)"
  "heap (set_level v example_both) 1 = Some example_file_handler"
  "heap (set_level v example_both) 2 = Some example_loggly_handler"
  by (simp_all add: set_level_def example_both_logger Handler_setLevel_def example_both_heap
      example_both_heap_Suc)



lemma example_dispatch_exc:
  "fst (dispatch example_env example_handlers example_exc_record) = None"
  "sink_events 1 (snd (snd (dispatch example_env example_handlers example_exc_record))) =
     [Handle 1, Write 1 (''- -[-] example.py/-/-[-] - boom'' @ [nl] @
        ''Traceback (most recent call last):'' @ [nl] @ ''ZeroDivisionError: division by zero'' @ [nl])]"
  "sink_events 2 (snd (snd (dispatch example_env example_handlers example_exc_record))) =
     [Handle 2, Post 2 example_url (example_json example_flat @ [nl] @
        ''Traceback (most recent call last):'' @ [nl] @ ''ZeroDivisionError: division by zero'')]"
  by code_simp+

lemma quiet_dispatch:
  "dispatch example_env quiet_handlers (makeRecord example_env 40 ''boom'' [] None) =
     (Some (ValueError (''Formatting field not found in record: '' @ [CHR 0x27] @ ''programname'' @ [CHR 0x27])),
      makeRecord example_env 40 ''boom'' [] None, [Handle 1])"
  by (simp add: quiet_handlers_def handler_raises_def record_after_def own_events_def
      example_console_handler_def example_loggly_handler_def makeRecord_def apply_filters_def
      loggly_record_def format_text_def Formatter_format_def getMessage_def loggly_format_def
      LogRecord_attrs_def)


section \<open>The output wrapper\<close>








subsection \<open>The error wrapper\<close>



lemma StdErrWrapper_flush_nonempty:
  assumes "stderr_wrapper w = Some b" and "err_buffer b \<noteq> []"
  shows "filter is_Call (new_events w (snd (StdErrWrapper_flush e w))) =
           [Call (err_log_level b) (err_buffer b)]"
    and "fst (StdErrWrapper_flush e w) = None \<Longrightarrow>
           \<exists>b2. stderr_wrapper (snd (StdErrWrapper_flush e w)) = Some b2 \<and> err_buffer b2 = [] \<and>
             err_log_level b2 = err_log_level b"
    and "sys_stderr (snd (StdErrWrapper_flush e w)) = sys_stderr w"
    and "fst (StdErrWrapper_flush e w) = fst (Logger_log e (err_log_level b) (err_buffer b) [] None w)"
proof -
  define x where "x = fst (Logger_log e (err_log_level b) (err_buffer b) [] None w)"
  define w1 where "w1 = snd (Logger_log e (err_log_level b) (err_buffer b) [] None w)"
  have L: "Logger_log e (err_log_level b) (err_buffer b) [] None w = (x, w1)"
    by (simp add: x_def w1_def)
  from Logger_log_frame(2) [of w e "err_log_level b" "err_buffer b" "[]" None] assms(1)
  obtain d where g: "stderr_wrapper w1 = Some (b\<lparr>err_buffer := err_buffer b @ d\<rparr>)"
    by (auto simp: wrapper_grows_def w1_def)
  have s1: "sys_stderr w1 = sys_stderr w" unfolding w1_def by (rule Logger_log_frame(1))
  have c1: "filter is_Call (new_events w w1) = [Call (err_log_level b) (err_buffer b)]"
    unfolding w1_def by (rule Logger_log_calls)
  have f: "StdErrWrapper_flush e w =
      (case x of Some y \<Rightarrow> (Some y, w1)
       | None \<Rightarrow> (None, w1\<lparr>stderr_wrapper := Some (b\<lparr>err_buffer := []\<rparr>)\<rparr>))"
    using assms g L by (simp add: StdErrWrapper_flush_def split: option.split)
  have ev: "events (snd (StdErrWrapper_flush e w)) = events w1"
    by (simp add: f split: option.split)
  show "filter is_Call (new_events w (snd (StdErrWrapper_flush e w))) =
           [Call (err_log_level b) (err_buffer b)]"
    using c1 by (simp add: new_events_def ev)
  show "fst (StdErrWrapper_flush e w) = None \<Longrightarrow>
           \<exists>b2. stderr_wrapper (snd (StdErrWrapper_flush e w)) = Some b2 \<and> err_buffer b2 = [] \<and>
             err_log_level b2 = err_log_level b"
    by (cases x) (simp_all add: f)
  show "sys_stderr (snd (StdErrWrapper_flush e w)) = sys_stderr w"
    using s1 by (cases x) (simp_all add: f)
  show "fst (StdErrWrapper_flush e w) = fst (Logger_log e (err_log_level b) (err_buffer b) [] None w)"
    by (cases x) (simp_all add: f L)
qed









lemma step_disabling:
  "is_disabling op \<Longrightarrow> stderr_wrapper (step op w) = stderr_wrapper w"
  by (cases op) (auto simp: redirect_stderr_def disable_logger_def Let_def)

lemma run_disabling:
  "\<forall>op \<in> set ops. is_disabling op \<Longrightarrow> stderr_wrapper (run ops w) = stderr_wrapper w"
  unfolding run_def by (induction ops arbitrary: w) (simp_all add: step_disabling)

text \<open>
  C10. With \<open>b\<close> the error wrapper of the state: any sequence of
  \<open>redirect_stderr(enabled=False)\<close> and \<open>disable_logger\<close> calls leaves the wrapper object
  and its buffer as they are; \<open>redirect_stderr(enabled=True, log_level)\<close> afterwards keeps
  the same object, only setting its level, and makes it \<open>sys.stderr\<close> again; a write of
  \<open>x\<close> and a flush then make one call of \<open>log\<close> whose message is the old buffer content
  followed by \<open>x\<close>. Disabling and then enabling the logger alone also restores the
  wrapper, buffer included, when redirection was on.
\<close>

theorem stderr_wrapper_survives_disabling:
  assumes "stderr_wrapper w = Some b" and "\<forall>op \<in> set ops. is_disabling op"
  shows "stderr_wrapper (run ops w) = Some b \<and>
         stderr_wrapper (redirect_stderr True lvl (run ops w)) = Some (b\<lparr>err_log_level := lvl\<rparr>) \<and>
         sys_stderr (redirect_stderr True lvl (run ops w)) = WrapperStream \<and>
         (err_buffer b @ x \<noteq> [] \<longrightarrow>
            filter is_Call
              (new_events (sys_stderr_write x (redirect_stderr True lvl (run ops w)))
                 (snd (sys_stderr_flush e (sys_stderr_write x (redirect_stderr True lvl (run ops w)))))) =
              [Call lvl (err_buffer b @ x)]) \<and>
         (stderr_stream w = WrapperStream \<longrightarrow>
            sys_stderr (disable_logger False (disable_logger True w)) = WrapperStream \<and>
            stderr_wrapper (disable_logger False (disable_logger True w)) = Some b)"
proof -
  define w1 where "w1 = run ops w"
  define w2 where "w2 = redirect_stderr True lvl w1"
  define b2 where "b2 = b\<lparr>err_log_level := lvl\<rparr>"
  have 1: "stderr_wrapper w1 = Some b" unfolding w1_def using assms by (simp add: run_disabling)
  have 2: "stderr_wrapper w2 = Some b2" "sys_stderr w2 = WrapperStream"
    unfolding w2_def b2_def using 1 by (simp_all add: redirect_stderr_def Let_def)
  define w3 where "w3 = sys_stderr_write x w2"
  define b3 where "b3 = b2\<lparr>err_buffer := err_buffer b2 @ x\<rparr>"
  have 3: "stderr_wrapper w3 = Some b3" "sys_stderr w3 = WrapperStream"
    unfolding w3_def b3_def using 2 by (simp_all add: sys_stderr_write_def StdErrWrapper_write_def)
  have b3: "err_buffer b3 = err_buffer b @ x" "err_log_level b3 = lvl"
    by (simp_all add: b3_def b2_def)
  have 4: "err_buffer b @ x \<noteq> [] \<longrightarrow>
      filter is_Call (new_events w3 (snd (sys_stderr_flush e w3))) = [Call lvl (err_buffer b @ x)]"
  proof
    assume "err_buffer b @ x \<noteq> []"
    then have ne: "err_buffer b3 \<noteq> []" using b3(1) by simp
    have "sys_stderr_flush e w3 = StdErrWrapper_flush e w3" using 3(2) by (simp add: sys_stderr_flush_def)
    then show "filter is_Call (new_events w3 (snd (sys_stderr_flush e w3))) = [Call lvl (err_buffer b @ x)]"
      using StdErrWrapper_flush_nonempty(1) [OF 3(1) ne, of e] b3 by simp
  qed
  have 5: "stderr_stream w = WrapperStream \<longrightarrow>
            sys_stderr (disable_logger False (disable_logger True w)) = WrapperStream \<and>
            stderr_wrapper (disable_logger False (disable_logger True w)) = Some b"
    using assms(1) by (simp add: disable_logger_def Let_def)
  show ?thesis using 1 2 4 5 unfolding w3_def w2_def w1_def b2_def by blast
qed

text \<open>
  \<open>"line1\n"\<close> is written; redirection is switched off, the logger disabled and enabled;
  redirection is switched on at another level; \<open>"line2\n"\<close> is written and flushed.
\<close>

theorem stderr_wrapper_survives_disabling_witness:
  "stderr_wrapper (sys_stderr_write (''line1'' @ [nl]) (redirect_stderr True 40 example_both)) =
     Some \<lparr>err_log_level = 40, err_buffer = ''line1'' @ [nl]\<rparr> \<and>
   stderr_wrapper (run [RedirectStderr False 40, DisableLogger True, DisableLogger False]
       (sys_stderr_write (''line1'' @ [nl]) (redirect_stderr True 40 example_both))) =
     Some \<lparr>err_log_level = 40, err_buffer = ''line1'' @ [nl]\<rparr> \<and>
   filter is_Call
     (new_events
        (sys_stderr_write (''line2'' @ [nl]) (redirect_stderr True 50
           (run [RedirectStderr False 40, DisableLogger True, DisableLogger False]
              (sys_stderr_write (''line1'' @ [nl]) (redirect_stderr True 40 example_both)))))
        (snd (sys_stderr_flush example_env
           (sys_stderr_write (''line2'' @ [nl]) (redirect_stderr True 50
              (run [RedirectStderr False 40, DisableLogger True, DisableLogger False]
                 (sys_stderr_write (''line1'' @ [nl]) (redirect_stderr True 40 example_both)))))))) =
     [Call 50 (''line1'' @ [nl] @ ''line2'' @ [nl])]"
proof -
  define w0 where "w0 = sys_stderr_write (''line1'' @ [nl]) (redirect_stderr True 40 example_both)"
  define b0 where "b0 = \<lparr>err_log_level = 40, err_buffer = ''line1'' @ [nl]\<rparr>"
  define ops where "ops = [RedirectStderr False 40, DisableLogger True, DisableLogger False]"
  define x where "x = ''line2'' @ [nl]"
  have a: "stderr_wrapper w0 = Some b0"
    by (simp add: w0_def b0_def redirect_stderr_def sys_stderr_write_def StdErrWrapper_write_def
        example_both_streams Let_def)
  have d: "\<forall>op \<in> set ops. is_disabling op" by (simp add: ops_def)
  have c: "err_buffer b0 @ x = ''line1'' @ [nl] @ ''line2'' @ [nl]" by (simp add: b0_def x_def)
  have n: "err_buffer b0 @ x \<noteq> []" by (simp add: b0_def x_def)
  note T = stderr_wrapper_survives_disabling [OF a d, of 50 x example_env]
  have "stderr_wrapper (run ops w0) = Some b0" using T by blast
  moreover have "filter is_Call
     (new_events (sys_stderr_write x (redirect_stderr True 50 (run ops w0)))
        (snd (sys_stderr_flush example_env (sys_stderr_write x (redirect_stderr True 50 (run ops w0)))))) =
     [Call 50 (''line1'' @ [nl] @ ''line2'' @ [nl])]"
    using T n c by metis
  ultimately show ?thesis using a unfolding w0_def b0_def ops_def x_def by blast
qed


section \<open>The Loggly handler\<close>

lemma handleError_own_events:
  "sink_events hid (new_events w (handleError e hid (w\<lparr>events := events w @ evs\<rparr>))) =
     sink_events hid evs @ [HandleError hid]"
  by (auto simp: handleError_def sys_stderr_write_def new_events_def sink_events_def
      split: stream.split option.split)

lemma try_post_None: "try_post p = None \<longleftrightarrow> p = Response 200 ok_content"
  by (cases p) (auto simp: try_post_def)

text \<open>
  When the formatter raises, the exception leaves \<open>emit\<close>: the call to \<open>self.format\<close> is
  not inside the \<open>try\<close>. No request is made and \<open>handleError\<close> is not called.
\<close>

lemma loggly_emit_format_raises:
  "Formatter_format e fmt (loggly_record r) = Inl x \<Longrightarrow>
     LogglyHandler_emit e hid u fmt r w = (Some x, loggly_record r, w)"
  by (simp add: LogglyHandler_emit_def)

text \<open>
  C5. Once the record is formatted (\<open>body\<close> is the text), \<open>LogglyHandler.emit\<close> posts it,
  and whatever the request does, no exception leaves \<open>emit\<close>. When the request returns
  status 200 with the content \<open>{"response" : "ok"}\<close> nothing else happens; in every other
  case (another status, another content, a connection failure, a timeout, any other
  \<open>RequestException\<close>) \<open>handleError\<close> is called, exactly once, which reports on the
  current error stream.
\<close>

theorem loggly_emit_outcome:
  assumes "Formatter_format e fmt (loggly_record r) = Inr (body, r2)"
  shows "fst (LogglyHandler_emit e hid u fmt r w) = None \<and>
     (post e = Response 200 ok_content \<longrightarrow>
        snd (snd (LogglyHandler_emit e hid u fmt r w)) = w\<lparr>events := events w @ [Post hid u body]\<rparr>) \<and>
     (post e \<noteq> Response 200 ok_content \<longrightarrow>
        snd (snd (LogglyHandler_emit e hid u fmt r w)) =
          handleError e hid (w\<lparr>events := events w @ [Post hid u body]\<rparr>)) \<and>
     sink_events hid (new_events w (snd (snd (LogglyHandler_emit e hid u fmt r w)))) =
       Post hid u body # (if post e = Response 200 ok_content then [] else [HandleError hid])"
proof (cases "post e = Response 200 ok_content")
  case True
  then have "try_post (post e) = None" by (simp add: try_post_None)
  then have "LogglyHandler_emit e hid u fmt r w = (None, r2, w\<lparr>events := events w @ [Post hid u body]\<rparr>)"
    using assms by (simp add: LogglyHandler_emit_def)
  then show ?thesis using True by (simp add: new_events_def sink_events_def)
next
  case False
  then obtain x where x: "try_post (post e) = Some x" using try_post_None [of "post e"] by auto
  then have "except_clause x" by (rule try_post_caught)
  then have "LogglyHandler_emit e hid u fmt r w =
      (None, r2, handleError e hid (w\<lparr>events := events w @ [Post hid u body]\<rparr>))"
    using assms x by (simp add: LogglyHandler_emit_def)
  then show ?thesis using False by (simp add: handleError_own_events) (simp add: sink_events_def)
qed

lemma example_record_formats:
  "Formatter_format example_env loggly_format
     (loggly_record (apply_filters example_env example_console_handler example_record)) =
   Inr (example_json ''Error message'', apply_filters example_env example_console_handler example_record)"
  by (simp add: example_record_def makeRecord_def apply_filters_def example_console_handler_def
      loggly_record_def Formatter_format_def getMessage_def loggly_format_def LogRecord_attrs_def
      example_json_def example_env_def q_def)

text \<open>
  The record of \<open>logger.error('Error message')\<close> as the console handler's filter leaves it:
  a success, a timeout, and status 200 with another content.
\<close>

theorem loggly_emit_outcome_witness:
  "LogglyHandler_emit example_env 2 example_url loggly_format
       (apply_filters example_env example_console_handler example_record) example_both =
     (None, apply_filters example_env example_console_handler example_record,
      example_both\<lparr>events := events example_both @ [Post 2 example_url (example_json ''Error message'')]\<rparr>) \<and>
   fst (LogglyHandler_emit (example_env\<lparr>post := Raises Timeout\<rparr>) 2 example_url loggly_format
       (apply_filters example_env example_console_handler example_record) example_both) = None \<and>
   sink_events 2 (new_events example_both
       (snd (snd (LogglyHandler_emit (example_env\<lparr>post := Raises Timeout\<rparr>) 2 example_url loggly_format
          (apply_filters example_env example_console_handler example_record) example_both)))) =
     [Post 2 example_url (example_json ''Error message''), HandleError 2] \<and>
   fst (LogglyHandler_emit (example_env\<lparr>post := Response 200 ''ok''\<rparr>) 2 example_url loggly_format
       (apply_filters example_env example_console_handler example_record) example_both) = None \<and>
   sink_events 2 (new_events example_both
       (snd (snd (LogglyHandler_emit (example_env\<lparr>post := Response 200 ''ok''\<rparr>) 2 example_url loggly_format
          (apply_filters example_env example_console_handler example_record) example_both)))) =
     [Post 2 example_url (example_json ''Error message''), HandleError 2]"
proof -
  define r where "r = apply_filters example_env example_console_handler example_record"
  define body where "body = example_json ''Error message''"
  define e1 where "e1 = example_env\<lparr>post := Raises Timeout\<rparr>"
  define e2 where "e2 = example_env\<lparr>post := Response 200 ''ok''\<rparr>"
  have f0: "Formatter_format example_env loggly_format (loggly_record r) = Inr (body, r)"
    unfolding r_def body_def by (rule example_record_formats)
  have same: "Formatter_format e1 fmt x = Formatter_format example_env fmt x"
    "Formatter_format e2 fmt x = Formatter_format example_env fmt x" for fmt x
    by (simp_all add: Formatter_format_def getMessage_def e1_def e2_def)
  have f1: "Formatter_format e1 loggly_format (loggly_record r) = Inr (body, r)"
    and f2: "Formatter_format e2 loggly_format (loggly_record r) = Inr (body, r)"
    using f0 by (simp_all add: same)
  have p0: "post example_env = Response 200 ok_content" by (simp add: example_env_def)
  have p1: "post e1 \<noteq> Response 200 ok_content" by (simp add: e1_def)
  have p2: "post e2 \<noteq> Response 200 ok_content" by (simp add: e2_def ok_content_def)
  note T0 = loggly_emit_outcome [OF f0, of 2 example_url example_both]
  note T1 = loggly_emit_outcome [OF f1, of 2 example_url example_both, unfolded if_not_P [OF p1]]
  note T2 = loggly_emit_outcome [OF f2, of 2 example_url example_both, unfolded if_not_P [OF p2]]
  have r0: "fst (snd (LogglyHandler_emit example_env 2 example_url loggly_format r example_both)) = r"
    using f0 by (simp add: LogglyHandler_emit_def Let_def split: option.split)
  have a: "LogglyHandler_emit example_env 2 example_url loggly_format r example_both =
      (None, r, example_both\<lparr>events := events example_both @ [Post 2 example_url body]\<rparr>)"
    using T0 p0 r0 by (metis prod.collapse)
  have b: "fst (LogglyHandler_emit e1 2 example_url loggly_format r example_both) = None"
    "sink_events 2 (new_events example_both
       (snd (snd (LogglyHandler_emit e1 2 example_url loggly_format r example_both)))) =
     [Post 2 example_url body, HandleError 2]"
    using T1 by blast+
  have c: "fst (LogglyHandler_emit e2 2 example_url loggly_format r example_both) = None"
    "sink_events 2 (new_events example_both
       (snd (snd (LogglyHandler_emit e2 2 example_url loggly_format r example_both)))) =
     [Post 2 example_url body, HandleError 2]"
    using T2 by blast+
  show ?thesis using a b c unfolding r_def body_def e1_def e2_def by blast
qed

lemma example_both_enabled:
  "isEnabledFor example_both 40" "isEnabledFor example_both 30"
  by (simp_all add: isEnabledFor_def getEffectiveLevel_def example_both_logger)

text \<open>
  C6, which the code does not meet. The program is \<open>example.py\<close>: the file handler is
  attached before the Loggly handler, and \<open>logger.exception('boom')\<close> is called inside
  the handler of a \<open>ZeroDivisionError\<close>. The file handler's formatter has stored the
  formatted traceback in \<open>record.exc_text\<close> by the time the record reaches
  \<open>LogglyHandler.emit\<close>, which clears \<open>exc_info\<close> and leaves \<open>exc_text\<close>; its formatter then
  appends that text. The traceback is in the posted body twice: once escaped, inside the
  message, and once more, raw, on new lines after the closing brace of the JSON object.
\<close>

theorem loggly_renders_error_twice:
  "fst (Logger_log example_env 40 ''boom'' [] (Some example_traceback) example_both) = None \<and>
   sink_events 2 (new_events example_both
       (snd (Logger_log example_env 40 ''boom'' [] (Some example_traceback) example_both))) =
     [Handle 2,
      Post 2 example_url
        (example_json (''boom'' @ [bs] @ ''nTraceback (most recent call last):'' @ [bs] @
           ''nZeroDivisionError: division by zero'' @ [bs] @ ''n'') @ [nl] @
         ''Traceback (most recent call last):'' @ [nl] @ ''ZeroDivisionError: division by zero'')]"
proof -
  have fl: "list_all (\<lambda>f. f (makeRecord example_env 40 ''boom'' [] (Some example_traceback)))
      (logger_filters example_both)"
    by (simp add: example_both_logger)
  note D = Logger_log_dispatch [OF example_both_handlers_list example_both_enabled(1) fl]
  show ?thesis
    using D(1) D(2) example_dispatch_exc(1) example_dispatch_exc(3)
    by (simp add: example_exc_record_def example_flat_def)
qed


section \<open>\<open>set_level\<close>\<close>

lemma fold_setLevel_other:
  "i \<notin> set is \<Longrightarrow> fold (Handler_setLevel v) is hp i = hp i"
  by (induction "is" arbitrary: hp) (auto simp: Handler_setLevel_def split: option.split)

lemma fold_setLevel_None:
  "(fold (Handler_setLevel v) is hp i = None) = (hp i = None)"
  by (induction "is" arbitrary: hp) (auto simp: Handler_setLevel_def split: option.split)

lemma fold_setLevel_level:
  "hp i = Some h \<Longrightarrow> \<exists>h'. fold (Handler_setLevel v) is hp i = Some h' \<and>
      h' = h\<lparr>h_level := (if i \<in> set is then v else h_level h)\<rparr>"
proof (induction "is" arbitrary: hp h)
  case Nil
  then show ?case by simp
next
  case (Cons j js)
  show ?case
  proof (cases "j = i")
    case True
    have "Handler_setLevel v j hp i = Some (h\<lparr>h_level := v\<rparr>)"
      using Cons.prems True by (simp add: Handler_setLevel_def)
    from Cons.IH [of "Handler_setLevel v j hp" "h\<lparr>h_level := v\<rparr>", OF this]
    show ?thesis using True by auto
  next
    case False
    have "Handler_setLevel v j hp i = Some h"
      using Cons.prems False by (simp add: Handler_setLevel_def split: option.split)
    from Cons.IH [of "Handler_setLevel v j hp" h, OF this]
    show ?thesis using False by auto
  qed
qed

lemma apart_init: "apart (LogOne_init name lvl use_colors fmt dfmt parent disable)"
  by (simp add: apart_def LogOne_init_def)

lemma apart_shape: "apart w \<Longrightarrow> apart (w\<lparr>events := evs, stderr_wrapper := b\<rparr>)"
  by (simp add: apart_def)

lemma Logger_log_shape:
  "\<exists>evs b. snd (Logger_log e lvl m a ei w) = w\<lparr>events := evs, stderr_wrapper := b\<rparr>"
proof -
  from dispatched_Logger_log [of w lvl m e a ei] obtain evs b where
    "snd (Logger_log e lvl m a ei w) =
       w\<lparr>events := events w @ [Call lvl m]\<rparr>\<lparr>events := events (w\<lparr>events := events w @ [Call lvl m]\<rparr>) @ evs,
         stderr_wrapper := b\<rparr>"
    unfolding dispatched_def by blast
  then have "snd (Logger_log e lvl m a ei w) =
      w\<lparr>events := events w @ [Call lvl m] @ evs, stderr_wrapper := b\<rparr>" by simp
  then show ?thesis by blast
qed

lemma same_shape: "\<exists>evs b. w = w\<lparr>events := evs, stderr_wrapper := b\<rparr>"
proof -
  have "w = w\<lparr>events := events w, stderr_wrapper := stderr_wrapper w\<rparr>" by simp
  then show ?thesis by blast
qed

lemma sys_stderr_write_shape:
  "\<exists>evs b. sys_stderr_write s w = w\<lparr>events := evs, stderr_wrapper := b\<rparr>"
proof -
  from dispatched_sys_stderr_write [of w s] obtain evs b where
    "sys_stderr_write s w = w\<lparr>events := events w @ evs, stderr_wrapper := b\<rparr>"
    unfolding dispatched_def by blast
  then show ?thesis by blast
qed

lemma sys_stdout_write_shape:
  "\<exists>evs b. snd (sys_stdout_write e s w) = w\<lparr>events := evs, stderr_wrapper := b\<rparr>"
proof (cases "sys_stdout w")
  case OriginalStream
  have "w\<lparr>events := events w @ [StdoutText s]\<rparr> =
      w\<lparr>events := events w @ [StdoutText s], stderr_wrapper := stderr_wrapper w\<rparr>" by simp
  then show ?thesis using OriginalStream unfolding sys_stdout_write_def by (simp, blast)
next
  case WrapperStream
  show ?thesis
  proof (cases "stdout_wrapper w")
    case None
    then show ?thesis using WrapperStream same_shape [of w] by (simp add: sys_stdout_write_def)
  next
    case (Some sw)
    then show ?thesis using WrapperStream same_shape [of w] Logger_log_shape [of e _ _ "[]" None w]
      by (simp add: sys_stdout_write_def StdOutWrapper_write_def Let_def)
  qed
qed

lemma StdErrWrapper_flush_shape:
  "\<exists>evs b. snd (StdErrWrapper_flush e w) = w\<lparr>events := evs, stderr_wrapper := b\<rparr>"
proof (cases "stderr_wrapper w")
  case None
  then show ?thesis using same_shape [of w] by (simp add: StdErrWrapper_flush_def)
next
  case (Some b)
  show ?thesis
  proof (cases "err_buffer b = []")
    case True
    then show ?thesis using Some same_shape [of w] by (simp add: StdErrWrapper_flush_def)
  next
    case False
    obtain x w1 where L: "Logger_log e (err_log_level b) (err_buffer b) [] None w = (x, w1)"
      by (cases "Logger_log e (err_log_level b) (err_buffer b) [] None w")
    from Logger_log_shape [of e "err_log_level b" "err_buffer b" "[]" None w] L
    obtain evs b1 where w1: "w1 = w\<lparr>events := evs, stderr_wrapper := b1\<rparr>" by auto
    have "snd (StdErrWrapper_flush e w) = w1 \<or>
          (\<exists>b2. snd (StdErrWrapper_flush e w) = w1\<lparr>stderr_wrapper := b2\<rparr>)"
      using Some False L by (auto simp: StdErrWrapper_flush_def split: option.split)
    then show ?thesis
    proof
      assume "snd (StdErrWrapper_flush e w) = w1"
      then show ?thesis using w1 by blast
    next
      assume "\<exists>b2. snd (StdErrWrapper_flush e w) = w1\<lparr>stderr_wrapper := b2\<rparr>"
      then obtain b2 where "snd (StdErrWrapper_flush e w) = w\<lparr>events := evs, stderr_wrapper := b2\<rparr>"
        using w1 by auto
      then show ?thesis by blast
    qed
  qed
qed

lemma sys_stderr_flush_shape:
  "\<exists>evs b. snd (sys_stderr_flush e w) = w\<lparr>events := evs, stderr_wrapper := b\<rparr>"
  using same_shape [of w] StdErrWrapper_flush_shape [of e w]
  by (cases "sys_stderr w") (simp_all add: sys_stderr_flush_def)

lemma apart_set_level: "apart w \<Longrightarrow> apart (set_level v w)"
  by (simp add: apart_def set_level_def fold_setLevel_None)

lemma apart_use_file: "apart w \<Longrightarrow> apart (snd (use_file en a w))"
  by (auto simp: apart_def use_file_def add_handler_def remove_handler_def Let_def
      split: option.split dest: less_SucI)

lemma apart_use_loggly: "apart w \<Longrightarrow> apart (snd (use_loggly en a w))"
  by (auto simp: apart_def use_loggly_def add_handler_def remove_handler_def Let_def
      split: option.split dest: less_SucI)

lemma apart_step: "apart w \<Longrightarrow> apart (step op w)"
proof (cases op)
  case (SetLevel v)
  assume "apart w" then show ?thesis using SetLevel by (simp add: apart_set_level)
next
  case (DisableLogger d)
  assume "apart w" then show ?thesis using DisableLogger by (simp add: apart_def disable_logger_def Let_def)
next
  case (RedirectStdout en l)
  assume "apart w" then show ?thesis using RedirectStdout
    by (simp add: apart_def redirect_stdout_def Let_def split: option.split)
next
  case (RedirectStderr en l)
  assume "apart w" then show ?thesis using RedirectStderr
    by (simp add: apart_def redirect_stderr_def Let_def split: option.split)
next
  case (UseFile en a)
  assume "apart w" then show ?thesis using UseFile by (simp add: apart_use_file)
next
  case (UseLoggly en a)
  assume "apart w" then show ?thesis using UseLoggly by (simp add: apart_use_loggly)
next
  case (AddFilter f)
  assume "apart w" then show ?thesis using AddFilter by (simp add: apart_def add_filter_def)
next
  case (RemoveFilter f)
  assume "apart w" then show ?thesis using RemoveFilter by (simp add: apart_def remove_filter_def)
next
  case (Log e l m a ei)
  assume a: "apart w"
  obtain evs b where "snd (Logger_log e l m a ei w) = w\<lparr>events := evs, stderr_wrapper := b\<rparr>"
    using Logger_log_shape by blast
  then show ?thesis using Log apart_shape [OF a] by simp
next
  case (StdoutWrite e s)
  assume a: "apart w"
  obtain evs b where "snd (sys_stdout_write e s w) = w\<lparr>events := evs, stderr_wrapper := b\<rparr>"
    using sys_stdout_write_shape by blast
  then show ?thesis using StdoutWrite apart_shape [OF a] by simp
next
  case (StderrWrite s)
  assume a: "apart w"
  obtain evs b where "sys_stderr_write s w = w\<lparr>events := evs, stderr_wrapper := b\<rparr>"
    using sys_stderr_write_shape by blast
  then show ?thesis using StderrWrite apart_shape [OF a] by simp
next
  case (StderrFlush e)
  assume a: "apart w"
  obtain evs b where "snd (sys_stderr_flush e w) = w\<lparr>events := evs, stderr_wrapper := b\<rparr>"
    using sys_stderr_flush_shape by blast
  then show ?thesis using StderrFlush apart_shape [OF a] by simp
qed

lemma apart_run: "apart w \<Longrightarrow> apart (run ops w)"
  unfolding run_def by (induction ops arbitrary: w) (simp_all add: apart_step)

lemma step_coloredlogs_handlers: "coloredlogs_handlers (step op w) = coloredlogs_handlers w"
proof (cases op)
  case (Log e l m a ei)
  obtain evs b where "snd (Logger_log e l m a ei w) = w\<lparr>events := evs, stderr_wrapper := b\<rparr>"
    using Logger_log_shape by blast
  then show ?thesis using Log by simp
next
  case (StdoutWrite e s)
  obtain evs b where "snd (sys_stdout_write e s w) = w\<lparr>events := evs, stderr_wrapper := b\<rparr>"
    using sys_stdout_write_shape by blast
  then show ?thesis using StdoutWrite by simp
next
  case (StderrWrite s)
  obtain evs b where "sys_stderr_write s w = w\<lparr>events := evs, stderr_wrapper := b\<rparr>"
    using sys_stderr_write_shape by blast
  then show ?thesis using StderrWrite by simp
next
  case (StderrFlush e)
  obtain evs b where "snd (sys_stderr_flush e w) = w\<lparr>events := evs, stderr_wrapper := b\<rparr>"
    using sys_stderr_flush_shape by blast
  then show ?thesis using StderrFlush by simp
qed (auto simp: set_level_def disable_logger_def redirect_stdout_def redirect_stderr_def
      use_file_def use_loggly_def add_handler_def remove_handler_def add_filter_def
      remove_filter_def Let_def split: option.split)

lemma run_coloredlogs_handlers: "coloredlogs_handlers (run ops w) = coloredlogs_handlers w"
  unfolding run_def by (induction ops arbitrary: w) (simp_all add: step_coloredlogs_handlers)

text \<open>
  C2. In every state \<open>w\<close> that a program reaches from a newly constructed \<open>LogOne\<close>, and for
  every level \<open>v\<close>: after \<open>set_level(v)\<close> the logger's level is \<open>v\<close>; the handler installed
  at construction (the only member of \<open>__coloredlogs_handlers\<close>) is the same object with
  level \<open>v\<close>; an attached file handler and an attached Loggly handler are exactly as they
  were, level included; and which handlers are attached does not change.
\<close>

theorem set_level_frame:
  assumes "w = run ops (LogOne_init name lvl use_colors fmt dfmt parent disable)"
  shows "logger_level (set_level v w) = v \<and>
         coloredlogs_handlers w = [0] \<and>
         (\<forall>i \<in> set (coloredlogs_handlers w).
             \<exists>h. heap w i = Some h \<and> heap (set_level v w) i = Some (h\<lparr>h_level := v\<rparr>)) \<and>
         (\<forall>i. file_handler w = Some i \<longrightarrow>
             heap w i \<noteq> None \<and> heap (set_level v w) i = heap w i) \<and>
         (\<forall>i. loggly_handler w = Some i \<longrightarrow>
             heap w i \<noteq> None \<and> heap (set_level v w) i = heap w i) \<and>
         file_handler (set_level v w) = file_handler w \<and>
         loggly_handler (set_level v w) = loggly_handler w \<and>
         logger_handlers (set_level v w) = logger_handlers w"
proof -
  have a: "apart w" unfolding assms by (rule apart_run [OF apart_init])
  have c: "coloredlogs_handlers w = [0]"
    unfolding assms by (simp add: run_coloredlogs_handlers LogOne_init_def)
  have 1: "\<forall>i \<in> set (coloredlogs_handlers w).
             \<exists>h. heap w i = Some h \<and> heap (set_level v w) i = Some (h\<lparr>h_level := v\<rparr>)"
  proof
    fix i assume i: "i \<in> set (coloredlogs_handlers w)"
    then obtain h where h: "heap w i = Some h" using a by (auto simp: apart_def)
    from fold_setLevel_level [of "heap w" i h v "coloredlogs_handlers w", OF h] i
    have "heap (set_level v w) i = Some (h\<lparr>h_level := v\<rparr>)" by (simp add: set_level_def)
    with h show "\<exists>h. heap w i = Some h \<and> heap (set_level v w) i = Some (h\<lparr>h_level := v\<rparr>)"
      by blast
  qed
  have 2: "\<forall>i. file_handler w = Some i \<longrightarrow>
             heap w i \<noteq> None \<and> heap (set_level v w) i = heap w i"
    using a by (auto simp: apart_def set_level_def fold_setLevel_other)
  have 3: "\<forall>i. loggly_handler w = Some i \<longrightarrow>
             heap w i \<noteq> None \<and> heap (set_level v w) i = heap w i"
    using a by (auto simp: apart_def set_level_def fold_setLevel_other)
  show ?thesis using c 1 2 3 by (simp add: set_level_def)
qed

text \<open>\<open>set_level(INFO)\<close> on the logger of the example, whose two handlers stay at \<open>DEBUG\<close>.\<close>

theorem set_level_frame_witness:
  "logger_level (set_level 20 example_both) = 20 \<and>
   heap (set_level 20 example_both) 0 =
     Some \<lparr>h_kind = StreamHandler True, h_level = 20, h_fmt = console_format, h_datefmt = None,
       h_filters = [''programname'']\<rparr> \<and>
   file_handler example_both = Some 1 \<and>
   heap (set_level 20 example_both) 1 = heap example_both 1 \<and>
   loggly_handler example_both = Some 2 \<and>
   heap (set_level 20 example_both) 2 = heap example_both 2"
proof -
  note T = set_level_frame [OF example_both_run, of 20]
  have "0 \<in> set (coloredlogs_handlers example_both)" using T by simp
  then obtain h where "heap example_both 0 = Some h"
    "heap (set_level 20 example_both) 0 = Some (h\<lparr>h_level := 20\<rparr>)" using T by blast
  then have "heap (set_level 20 example_both) 0 =
     Some \<lparr>h_kind = StreamHandler True, h_level = 20, h_fmt = console_format, h_datefmt = None,
       h_filters = [''programname'']\<rparr>"
    by (auto simp: example_both_heap example_console_handler_def)
  then show ?thesis using T example_both_handlers by simp
qed


end
